theory Spec2Isabelle
  imports Complex_Main "HOL-Library.Sublist"
begin

section \<open>Texts\<close>

text \<open>
  Paths and messages are texts of Unicode code points (a Python \<^verbatim>\<open>str\<close>, a JavaScript string
  read code point by code point). \<open>asc\<close> embeds an ASCII literal.
\<close>

type_synonym ustr = "nat list"

definition asc :: "string \<Rightarrow> ustr" where
  "asc s = map of_char s"

subsection \<open>The regular expressions of the \<^verbatim>\<open>files\<close> keys\<close>

text \<open>
  pre-commit selects the paths of a hook with Python's \<^verbatim>\<open>re.search(files, path)\<close>. The
  patterns of \<^verbatim>\<open>.pre-commit-config.yaml\<close> use the anchors \<^verbatim>\<open>^\<close> and \<^verbatim>\<open>$\<close>, the class
  \<^verbatim>\<open>\S\<close>, the repetition \<^verbatim>\<open>+\<close>, literal characters and one group of alternatives.
\<close>

datatype regex = Eps | Bol | Eol | Chr nat | NotSpace | Plus regex | Seq regex regex | Alt regex regex

text \<open>
  \<^verbatim>\<open>\s\<close> on a \<^verbatim>\<open>str\<close> pattern is Unicode white space: the code points for which
  \<^verbatim>\<open>str.isspace\<close> holds. \<^verbatim>\<open>\S\<close> is its complement.
\<close>

definition is_space :: "nat \<Rightarrow> bool" where
  "is_space c = ((9 \<le> c \<and> c \<le> 13) \<or> (28 \<le> c \<and> c \<le> 32) \<or> c = 133 \<or> c = 160 \<or> c = 5760
     \<or> (8192 \<le> c \<and> c \<le> 8202) \<or> c = 8232 \<or> c = 8233 \<or> c = 8239 \<or> c = 8287 \<or> c = 12288)"

text \<open>
  A backtracking matcher with a continuation: \<open>re_match r i s k\<close> holds when \<open>r\<close> matches
  a prefix of the remaining input \<open>s\<close>, which starts at position \<open>i\<close> of the path, and \<open>k\<close>
  accepts the position and input left after it. Without flags, \<^verbatim>\<open>^\<close> matches at position
  0 only, and \<^verbatim>\<open>$\<close> matches at the end of the text and also just before a line feed that
  ends the text. A repetition goes on only after its body has consumed input.
\<close>

function (sequential) re_match :: "regex \<Rightarrow> nat \<Rightarrow> ustr \<Rightarrow> (nat \<Rightarrow> ustr \<Rightarrow> bool) \<Rightarrow> bool" where
  "re_match Eps i s k = k i s"
| "re_match Bol i s k = (i = 0 \<and> k i s)"
| "re_match Eol i s k = ((s = [] \<or> s = [10]) \<and> k i s)"
| "re_match (Chr c) i [] k = False"
| "re_match (Chr c) i (x # xs) k = (x = c \<and> k (Suc i) xs)"
| "re_match NotSpace i [] k = False"
| "re_match NotSpace i (x # xs) k = (\<not> is_space x \<and> k (Suc i) xs)"
| "re_match (Seq a b) i s k = re_match a i s (\<lambda>j t. re_match b j t k)"
| "re_match (Alt a b) i s k = (re_match a i s k \<or> re_match b i s k)"
| "re_match (Plus r) i s k =
     re_match r i s (\<lambda>j t. (if length t < length s then re_match (Plus r) j t k else False) \<or> k j t)"
  by pat_completeness auto
termination
  by (relation "measures [\<lambda>(r, i, s, k). size r, \<lambda>(r, i, s, k). length s]") auto

text \<open>\<^verbatim>\<open>re.search\<close> tries every start position.\<close>

definition re_search :: "regex \<Rightarrow> ustr \<Rightarrow> bool" where
  "re_search r s = list_ex (\<lambda>i. re_match r i (drop i s) (\<lambda>j t. True)) [0..<Suc (length s)]"

text \<open>A run of literal characters, and a concatenation.\<close>

fun lits :: "ustr \<Rightarrow> regex" where
  "lits [] = Eps"
| "lits (c # cs) = Seq (Chr c) (lits cs)"

fun seqs :: "regex list \<Rightarrow> regex" where
  "seqs [] = Eps"
| "seqs (r # rs) = Seq r (seqs rs)"

subsection \<open>The local hooks of \<^verbatim>\<open>.pre-commit-config.yaml\<close>\<close>

text \<open>
  The three patterns the file writes: \<^verbatim>\<open>^\S+\.ipynb$\<close>, \<^verbatim>\<open>^\S+\.qmod$\<close> and
  \<^verbatim>\<open>^\S+\.(qmod|ipynb|yaml)$\<close>. Code point 46 is the escaped dot.
\<close>

definition re_ipynb :: regex where
  "re_ipynb = seqs [Bol, Plus NotSpace, Chr 46, lits (asc ''ipynb''), Eol]"

definition re_qmod :: regex where
  "re_qmod = seqs [Bol, Plus NotSpace, Chr 46, lits (asc ''qmod''), Eol]"

definition re_qmod_ipynb_yaml :: regex where
  "re_qmod_ipynb_yaml =
     seqs [Bol, Plus NotSpace, Chr 46,
           Alt (lits (asc ''qmod'')) (Alt (lits (asc ''ipynb'')) (lits (asc ''yaml''))), Eol]"

text \<open>A hook entry with the keys the file gives it, and the list under \<^verbatim>\<open>repo: local\<close>.\<close>

record hook =
  hook_id :: string
  hook_name :: string
  description :: string
  entry :: string
  language :: string
  files :: regex
  additional_dependencies :: "string list"
  require_serial :: bool

definition local_hooks :: "hook list" where
  "local_hooks =
    [\<lparr>hook_id = ''notebook-pre-commit'',
      hook_name = ''Notebook pre commit collection'',
      description = ''Ensure notebooks conventions'',
      entry = ''.internal/pre_commit_tools/notebook_pre_commit_collection.py'',
      language = ''python'',
      files = re_ipynb,
      additional_dependencies = [''pyyaml==6.0''],
      require_serial = True\<rparr>,
     \<lparr>hook_id = ''qmod-pre-commit'',
      hook_name = ''Qmod pre commit collection'',
      description = ''Ensure qmods conventions'',
      entry = ''.internal/pre_commit_tools/qmod_pre_commit_collection.py'',
      language = ''python'',
      files = re_qmod,
      additional_dependencies = [''pyyaml==6.0''],
      require_serial = True\<rparr>,
     \<lparr>hook_id = ''clean-demo-timeouts'',
      hook_name = ''Clean demo timeouts'',
      description = ''Remove unexisting entries and verify unique keys'',
      entry = ''.internal/pre_commit_tools/clean_timeouts.py'',
      language = ''python'',
      files = re_qmod_ipynb_yaml,
      additional_dependencies = [''pyyaml==6.0''],
      require_serial = True\<rparr>,
     \<lparr>hook_id = ''auto-add-tests'',
      hook_name = ''Auto add test'',
      description = ''Automatically adding a test to new notebooks'',
      entry = ''.internal/pre_commit_tools/auto_add_tests.py'',
      language = ''python'',
      files = re_ipynb,
      additional_dependencies = [],
      require_serial = True\<rparr>]"

text \<open>
  A hook runs on a path only when its \<^verbatim>\<open>files\<close> pattern is found in the path (the file
  sets no \<^verbatim>\<open>exclude\<close> and no \<^verbatim>\<open>types\<close>).
\<close>

definition hook_selects :: "hook \<Rightarrow> ustr \<Rightarrow> bool" where
  "hook_selects h path = re_search (files h) path"

text \<open>A path has one of the three extensions when it ends in it.\<close>

definition ext_ipynb :: ustr where "ext_ipynb = asc ''.ipynb''"
definition ext_qmod :: ustr where "ext_qmod = asc ''.qmod''"
definition ext_yaml :: ustr where "ext_yaml = asc ''.yaml''"

definition has_checked_extension :: "ustr \<Rightarrow> bool" where
  "has_checked_extension path =
     (suffix ext_ipynb path \<or> suffix ext_qmod path \<or> suffix ext_yaml path)"

section \<open>The workflow \<^verbatim>\<open>Notification-developers-onboarding.yml\<close>\<close>

subsection \<open>Trigger, permissions and the job's condition\<close>

text \<open>The fields of the webhook event that the workflow reads.\<close>

record event =
  event_name :: string
  action :: string
  pull_request_merged :: bool
  pull_request_user_login :: ustr
  pull_request_number :: nat
  repository_name :: ustr
  repository_owner_login :: ustr

text \<open>\<^verbatim>\<open>on: pull_request_target: types: [closed]\<close>\<close>

definition on_trigger :: "event \<Rightarrow> bool" where
  "on_trigger ev = (event_name ev = ''pull_request_target'' \<and> action ev \<in> set [''closed''])"

datatype access = Read | Write

text \<open>\<^verbatim>\<open>permissions: pull-requests: write\<close>\<close>

definition permissions :: "(string \<times> access) list" where
  "permissions = [(''pull-requests'', Write)]"

text \<open>\<^verbatim>\<open>if: github.event.pull_request.merged == true\<close>\<close>

definition job_if :: "event \<Rightarrow> bool" where
  "job_if ev = (pull_request_merged ev = True)"

subsection \<open>JavaScript values\<close>

text \<open>
  A Number is \<^verbatim>\<open>NaN\<close>, an infinity, or a finite double, held as the rational it denotes
  (the scripts cannot tell \<^verbatim>\<open>-0\<close> from \<^verbatim>\<open>0\<close>, so both are \<open>Finite 0\<close>).
\<close>

datatype jsnum = NaN | Infinity | NegInfinity | Finite rat

text \<open>\<^verbatim>\<open>===\<close> and \<^verbatim>\<open>>\<close> on Numbers: \<^verbatim>\<open>NaN\<close> equals nothing and compares with nothing.\<close>

fun strict_equals :: "jsnum \<Rightarrow> jsnum \<Rightarrow> bool" where
  "strict_equals (Finite a) (Finite b) = (a = b)"
| "strict_equals Infinity Infinity = True"
| "strict_equals NegInfinity NegInfinity = True"
| "strict_equals _ _ = False"

fun greater_than :: "jsnum \<Rightarrow> jsnum \<Rightarrow> bool" where
  "greater_than (Finite a) (Finite b) = (a > b)"
| "greater_than Infinity (Finite b) = True"
| "greater_than Infinity NegInfinity = True"
| "greater_than (Finite a) NegInfinity = True"
| "greater_than _ _ = False"

text \<open>
  Rounding a real to the nearest double, ties to the even significand (IEEE 754 binary64):
  \<open>binade x\<close> is the exponent \<open>e\<close> with \<open>2 ^ e \<le> x < 2 ^ (e + 1)\<close>, not below -1022, and the
  doubles of that binade are the multiples of \<open>2 ^ (e - 52)\<close>. A magnitude that rounds to
  \<open>2 ^ 1024\<close> or more overflows to an infinity.
\<close>

definition pow2 :: "int \<Rightarrow> rat" where
  "pow2 e = (if 0 \<le> e then 2 ^ nat e else 1 / 2 ^ nat (- e))"

function binade_up :: "rat \<Rightarrow> int" where
  "binade_up x = (if x < 2 then 0 else 1 + binade_up (x / 2))"
  by pat_completeness auto
termination
proof (relation "measure (\<lambda>x. nat \<lfloor>x\<rfloor>)")
  show "wf (measure (\<lambda>x::rat. nat \<lfloor>x\<rfloor>))" by simp
next
  fix x :: rat
  assume "\<not> x < 2"
  then have "2 \<le> x" by simp
  then have "\<lfloor>x / 2\<rfloor> < \<lfloor>x\<rfloor>" by linarith
  moreover have "0 < \<lfloor>x\<rfloor>" using \<open>2 \<le> x\<close> by linarith
  ultimately show "(x / 2, x) \<in> measure (\<lambda>x. nat \<lfloor>x\<rfloor>)" by simp
qed

declare binade_up.simps [simp del]

fun binade_down :: "nat \<Rightarrow> rat \<Rightarrow> int" where
  "binade_down 0 x = 0"
| "binade_down (Suc k) x = (if 1 \<le> x then 0 else binade_down k (2 * x) - 1)"

definition binade :: "rat \<Rightarrow> int" where
  "binade x = (if 1 \<le> x then binade_up x else binade_down 1022 x)"

definition round_half_even :: "rat \<Rightarrow> int" where
  "round_half_even q =
     (let f = \<lfloor>q\<rfloor>; d = q - of_int f
      in if d < 1 / 2 then f else if 1 / 2 < d then f + 1 else if even f then f else f + 1)"

definition round_double :: "rat \<Rightarrow> rat" where
  "round_double x =
     (if x \<le> 0 then 0
      else let u = pow2 (binade x - 52) in of_int (round_half_even (x / u)) * u)"

definition to_double :: "rat \<Rightarrow> jsnum" where
  "to_double x =
     (let m = round_double \<bar>x\<bar>
      in if pow2 1024 \<le> m then (if x < 0 then NegInfinity else Infinity)
         else Finite (if x < 0 then - m else m))"

text \<open>
  \<open>js_string\<close> is what a template literal makes of a text that may be \<^verbatim>\<open>undefined\<close>, and
  \<open>number_string\<close> of a Number. An integer of magnitude below \<open>2 ^ 53\<close> is printed as its
  decimal digits. For every other finite Number (a fraction, or a magnitude from \<open>2 ^ 53\<close>
  on, which \<^verbatim>\<open>Number::toString\<close> prints with its shortest digits and from \<open>10 ^ 21\<close> on with an
  exponent) the text is taken as the engine gives it, the argument \<open>other\<close>.
\<close>

fun js_string :: "ustr option \<Rightarrow> ustr" where
  "js_string None = asc ''undefined''"
| "js_string (Some s) = s"

fun decimal :: "nat \<Rightarrow> ustr" where
  "decimal n = (if n < 10 then [48 + n] else decimal (n div 10) @ [48 + n mod 10])"

declare decimal.simps [simp del]

fun number_string :: "(rat \<Rightarrow> ustr) \<Rightarrow> jsnum \<Rightarrow> ustr" where
  "number_string other NaN = asc ''NaN''"
| "number_string other Infinity = asc ''Infinity''"
| "number_string other NegInfinity = asc ''-Infinity''"
| "number_string other (Finite x) =
     (if x = of_int \<lfloor>x\<rfloor> \<and> \<bar>x\<bar> < 2 ^ 53
      then (if x < 0 then asc ''-'' @ decimal (nat (- \<lfloor>x\<rfloor>)) else decimal (nat \<lfloor>x\<rfloor>))
      else other x)"

text \<open>
  \<^verbatim>\<open>parseInt\<close> with no radix: leading white space is skipped, a sign is read, a prefix
  \<^verbatim>\<open>0x\<close> or \<^verbatim>\<open>0X\<close> selects radix 16, and the longest run of digits is read; no digit
  gives \<^verbatim>\<open>NaN\<close>. The result is the double nearest to the integer read, an infinity when
  it overflows (from the twenty-first significant digit on an engine may read the digits
  as zeros; a count of search items has at most ten digits). The argument \<^verbatim>\<open>undefined\<close> is
  read as the text "undefined".
\<close>

definition js_white_space :: "nat \<Rightarrow> bool" where
  "js_white_space c = ((9 \<le> c \<and> c \<le> 13) \<or> c = 32 \<or> c = 160 \<or> c = 5760 \<or> (8192 \<le> c \<and> c \<le> 8202)
     \<or> c = 8232 \<or> c = 8233 \<or> c = 8239 \<or> c = 8287 \<or> c = 12288 \<or> c = 65279)"

definition digit_value :: "nat \<Rightarrow> nat option" where
  "digit_value c =
     (if 48 \<le> c \<and> c \<le> 57 then Some (c - 48)
      else if 97 \<le> c \<and> c \<le> 122 then Some (c - 87)
      else if 65 \<le> c \<and> c \<le> 90 then Some (c - 55)
      else None)"

definition is_digit :: "nat \<Rightarrow> nat \<Rightarrow> bool" where
  "is_digit radix c = (case digit_value c of None \<Rightarrow> False | Some d \<Rightarrow> d < radix)"

definition digits_value :: "nat \<Rightarrow> ustr \<Rightarrow> nat" where
  "digits_value radix ds = foldl (\<lambda>a c. a * radix + the (digit_value c)) 0 ds"

definition parse_digits :: "bool \<Rightarrow> ustr \<Rightarrow> jsnum" where
  "parse_digits negative s =
     (let (radix, t) = (case s of
            a # b # r \<Rightarrow> if a = 48 \<and> (b = 120 \<or> b = 88) then (16, r) else (10, s)
          | _ \<Rightarrow> (10, s));
          ds = takeWhile (is_digit radix) t
      in if ds = [] then NaN
         else to_double ((if negative then - 1 else 1) * of_nat (digits_value radix ds)))"

definition parseInt :: "ustr option \<Rightarrow> jsnum" where
  "parseInt v =
     (case dropWhile js_white_space (js_string v) of
        [] \<Rightarrow> NaN
      | c # r \<Rightarrow> if c = 45 then parse_digits True r
                else if c = 43 then parse_digits False r
                else parse_digits False (c # r))"

subsection \<open>The GitHub API as the scripts use it\<close>

datatype js_error = Error ustr

fun error_message :: "js_error \<Rightarrow> ustr" where
  "error_message (Error m) = m"

record search_params =
  q :: ustr
  per_page :: nat

text \<open>
  An item of the search result: \<^verbatim>\<open>pull_request\<close> is absent on an item that is not a pull
  request, and \<^verbatim>\<open>merged_at\<close> is a timestamp or \<^verbatim>\<open>null\<close>.
\<close>

record pull_request_ref =
  merged_at :: "ustr option"

record search_item =
  pull_request :: "pull_request_ref option"

record comment_params =
  owner :: "ustr option"
  repo :: "ustr option"
  issue_number :: nat
  body :: ustr

datatype api_call =
  Search_issuesAndPullRequests search_params
| Issues_createComment comment_params

text \<open>The search is a GET request; creating a comment is a POST request.\<close>

fun mutating :: "api_call \<Rightarrow> bool" where
  "mutating (Search_issuesAndPullRequests _) = False"
| "mutating (Issues_createComment _) = True"

text \<open>
  What a run does not decide itself: whether the checkout succeeds, what the two API
  requests answer (a result or a thrown error), the value of \<^verbatim>\<open>Math.random()\<close> (a double
  from 0 up to but not including 1), and the text the engine prints for a Number that is
  not an integer of magnitude below \<open>2 ^ 53\<close>.
\<close>

record world =
  checkout_error :: "ustr option"
  search_issuesAndPullRequests :: "search_params \<Rightarrow> js_error + search_item list"
  issues_createComment :: "comment_params \<Rightarrow> js_error + unit"
  random :: rat
  number_toString :: "rat \<Rightarrow> ustr"

text \<open>
  The state of a run: the variables written to \<^verbatim>\<open>GITHUB_ENV\<close>, the API requests sent so
  far, the comments created, and the message of \<^verbatim>\<open>core.setFailed\<close> if it was called.
\<close>

record run_state =
  env :: "string \<rightharpoonup> ustr"
  calls :: "api_call list"
  comments :: "comment_params list"
  failed :: "ustr option"

definition initial_state :: run_state where
  "initial_state = \<lparr>env = Map.empty, calls = [], comments = [], failed = None\<rparr>"

subsection \<open>Step: Set Environment Variables\<close>

definition set_environment_variables :: "event \<Rightarrow> run_state \<Rightarrow> run_state" where
  "set_environment_variables ev st =
     st\<lparr>env := (env st)(''AUTHOR'' \<mapsto> pull_request_user_login ev,
                         ''REPO'' \<mapsto> repository_name ev,
                         ''OWNER'' \<mapsto> repository_owner_login ev)\<rparr>"

subsection \<open>Step: Count Merged Pull Requests\<close>

text \<open>A string or \<^verbatim>\<open>null\<close> as a condition: only a non-empty string is truthy.\<close>

fun truthy :: "ustr option \<Rightarrow> bool" where
  "truthy None = False"
| "truthy (Some s) = (s \<noteq> [])"

text \<open>
  \<^verbatim>\<open>data.items.filter(pr => pr.pull_request.merged_at)\<close>: reading \<^verbatim>\<open>merged_at\<close> of an absent
  \<^verbatim>\<open>pull_request\<close> throws a TypeError.
\<close>

fun filter_merged :: "search_item list \<Rightarrow> js_error + search_item list" where
  "filter_merged [] = Inr []"
| "filter_merged (pr # prs) =
     (case pull_request pr of
        None \<Rightarrow> Inl (Error (asc ''Cannot read properties of undefined (reading 'merged_at')''))
      | Some p \<Rightarrow>
          (case filter_merged prs of
             Inl e \<Rightarrow> Inl e
           | Inr kept \<Rightarrow> Inr (if truthy (merged_at p) then pr # kept else kept)))"

definition search_query :: "(string \<rightharpoonup> ustr) \<Rightarrow> search_params" where
  "search_query e =
     \<lparr>q = asc ''repo:'' @ js_string (e ''OWNER'') @ asc ''/'' @ js_string (e ''REPO'') @
           asc '' type:pr state:closed author:'' @ js_string (e ''AUTHOR''),
      per_page = 1000\<rparr>"

text \<open>The body of the \<^verbatim>\<open>try\<close> block: the requests it sends, and its result or thrown error.\<close>

definition count_body :: "world \<Rightarrow> (string \<rightharpoonup> ustr) \<Rightarrow> api_call list \<times> (js_error + nat)" where
  "count_body w e =
     ([Search_issuesAndPullRequests (search_query e)],
      case search_issuesAndPullRequests w (search_query e) of
        Inl err \<Rightarrow> Inl err
      | Inr items \<Rightarrow>
          (case filter_merged items of
             Inl err \<Rightarrow> Inl err
           | Inr kept \<Rightarrow> Inr (length kept)))"

definition count_merged_pull_requests :: "world \<Rightarrow> run_state \<Rightarrow> run_state" where
  "count_merged_pull_requests w st =
     (case count_body w (env st) of
        (cs, Inl error) \<Rightarrow>
          st\<lparr>calls := calls st @ cs,
             failed := Some (asc ''Error counting merged pull requests: '' @ error_message error)\<rparr>
      | (cs, Inr prCount) \<Rightarrow>
          st\<lparr>calls := calls st @ cs,
             env := (env st)(''PR_COUNT'' \<mapsto> decimal prCount)\<rparr>)"

subsection \<open>Step: Comment on the Merged Pull Request\<close>

definition emojis :: "ustr list" where
  "emojis = [[0x1F389], [0x1F680], [0x1F4AA], [0x1F31F], [0x1F3C6],
             [0x1F38A], [0x1F525], [0x1F44F], [0x1F308], [0x1F682]]"

text \<open>
  \<^verbatim>\<open>emojis[Math.floor(Math.random() * emojis.length)]\<close>: the product is a product of doubles,
  rounded to a double before \<^verbatim>\<open>Math.floor\<close>; an index out of range reads \<^verbatim>\<open>undefined\<close>.
\<close>

definition getRandomEmoji :: "rat \<Rightarrow> ustr option" where
  "getRandomEmoji r =
     (case to_double (r * of_nat (length emojis)) of
        Finite x \<Rightarrow>
          (let i = \<lfloor>x\<rfloor>
           in if 0 \<le> i \<and> i < int (length emojis) then Some (emojis ! nat i) else None)
      | _ \<Rightarrow> None)"

text \<open>The seven template literals of \<^verbatim>\<open>getMessage\<close>; code point 10 is the line feed.\<close>

definition message_1 :: "ustr \<Rightarrow> ustr \<Rightarrow> ustr \<Rightarrow> ustr" where
  "message_1 emoji author repo_name =
     emoji @ asc '' **Fantastic work @'' @ author @ asc ''!** Your very first PR to '' @ repo_name @ asc '' has been merged! '' @ [0x1F389, 0x1F973, 10, 10] @
     asc ''If you're feeling adventurous, why not dive into another issue and keep contributing? The Classiq community would love to see more from you! '' @ [0x1F680, 10, 10] @
     asc ''Happy coding! '' @ [0x1F469, 0x200D, 0x1F4BB, 0x1F468, 0x200D, 0x1F4BB]"

definition message_2 :: "ustr \<Rightarrow> ustr \<Rightarrow> ustr \<Rightarrow> ustr" where
  "message_2 emoji author repo_name =
     emoji @ asc '' **Well done @'' @ author @ asc ''!** Two PRs merged already! '' @ [0x1F389, 0x1F973, 10, 10] @
     asc ''With your second PR, you're on a roll, and your contributions are already making a difference. '' @ [0x1F31F, 10] @
     asc ''Looking forward to seeing even more contributions from you. Keep up the great work! '' @ [0x1F680]"

definition message_3 :: "ustr \<Rightarrow> ustr \<Rightarrow> ustr \<Rightarrow> ustr" where
  "message_3 emoji author repo_name =
     emoji @ asc '' **You're on fire, @'' @ author @ asc ''!** Three PRs merged and counting! '' @ [0x1F525, 0x1F389, 10, 10] @
     asc ''Your consistent contributions are truly impressive. You're becoming a valued member of our community! '' @ [0x1F496, 10] @
     asc ''Have you considered taking on some more challenging issues? We'd love to see what you can do! '' @ [0x1F4AA, 10, 10]"

definition message_5 :: "ustr \<Rightarrow> ustr \<Rightarrow> ustr \<Rightarrow> ustr" where
  "message_5 emoji author repo_name =
     emoji @ asc '' **High five, @'' @ author @ asc ''!** You've hit the incredible milestone of 5 merged PRs! '' @ [0x1F590, 0xFE0F, 0x2728, 10, 10] @
     asc ''Your dedication to '' @ repo_name @ asc '' is outstanding. You're not just contributing code; you're shaping the future of quantum computing! '' @ [0x1F320, 10] @
     asc ''We'd love to hear your thoughts on the project. Any ideas for new features or improvements? '' @ [0x1F914, 10, 10] @
     asc ''You're a superstar! '' @ [0x1F31F]"

definition message_10 :: "ustr \<Rightarrow> ustr \<Rightarrow> ustr \<Rightarrow> ustr" where
  "message_10 emoji author repo_name =
     emoji @ asc '' **Double digits, @'' @ author @ asc ''!** 10 merged PRs is a massive achievement! '' @ [0x1F3C6, 0x1F38A, 10, 10] @
     asc ''Your impact on '' @ repo_name @ asc '' is undeniable. You've become a pillar of our community! '' @ [0x1F3DB, 0xFE0F, 10] @
     asc ''You're a quantum hero! '' @ [0x1F9B8, 0x200D, 0x2640, 0xFE0F, 0x1F9B8, 0x200D, 0x2642, 0xFE0F]"

definition message_more :: "ustr \<Rightarrow> ustr \<Rightarrow> ustr \<Rightarrow> ustr \<Rightarrow> ustr" where
  "message_more emoji author repo_name count =
     emoji @ asc '' **Incredible, @'' @ author @ asc ''!** You've merged your '' @ count @ asc ''th PR! '' @ [0x1F3AF, 0x1F38A, 10, 10] @
     asc ''Your ongoing commitment to '' @ repo_name @ asc '' is truly remarkable. You're a driving force in our community! '' @ [0x1F680, 10] @
     asc ''Your contributions are helping to shape the future of quantum computing! What exciting features or improvements do you envision next? '' @ [0x1F52E, 10, 10] @
     asc ''We are grateful for your dedication! '' @ [0x1F4AB]"

definition message_other :: "ustr \<Rightarrow> ustr \<Rightarrow> ustr \<Rightarrow> ustr \<Rightarrow> ustr" where
  "message_other emoji author repo_name count =
     emoji @ asc '' **Great job, @'' @ author @ asc ''!** You've merged your '' @ count @ asc ''th PR! '' @ [0x1F38A, 10, 10] @
     asc ''Your contributions to '' @ repo_name @ asc '' are making a real difference. Keep up the fantastic work! '' @ [0x1F4AA, 10] @
     asc ''Remember, every PR counts and helps improve the project. What will you tackle next? '' @ [0x1F914, 10, 10]"

text \<open>
  \<^verbatim>\<open>getMessage(count)\<close>, with the variables it closes over (\<^verbatim>\<open>author\<close>, \<^verbatim>\<open>repo\<close>) as
  arguments; the random number and the printing of Numbers come from the world. The
  \<^verbatim>\<open>switch\<close> compares with \<^verbatim>\<open>===\<close>, case by case in order.
\<close>

definition getMessage :: "world \<Rightarrow> ustr option \<Rightarrow> ustr option \<Rightarrow> jsnum \<Rightarrow> ustr" where
  "getMessage w author repo_name count =
     (let emoji = js_string (getRandomEmoji (random w));
          a = js_string author; p = js_string repo_name
      in if strict_equals count (Finite 1) then message_1 emoji a p
         else if strict_equals count (Finite 2) then message_2 emoji a p
         else if strict_equals count (Finite 3) then message_3 emoji a p
         else if strict_equals count (Finite 5) then message_5 emoji a p
         else if strict_equals count (Finite 10) then message_10 emoji a p
         else if greater_than count (Finite 10)
           then message_more emoji a p (number_string (number_toString w) count)
         else message_other emoji a p (number_string (number_toString w) count))"

text \<open>
  The request the script sends. It reads \<^verbatim>\<open>PR_COUNT\<close>, \<^verbatim>\<open>AUTHOR\<close>, \<^verbatim>\<open>REPO\<close> and \<^verbatim>\<open>OWNER\<close> from
  the environment and the number of the pull request from the event; its constant
  \<^verbatim>\<open>mention\<close> is never used.
\<close>

definition comment_request :: "world \<Rightarrow> event \<Rightarrow> (string \<rightharpoonup> ustr) \<Rightarrow> comment_params" where
  "comment_request w ev e =
     (let prCount = parseInt (e ''PR_COUNT'');
          author = e ''AUTHOR'';
          prNumber = pull_request_number ev;
          repo_name = e ''REPO'';
          message = getMessage w author repo_name prCount
      in \<lparr>owner = e ''OWNER'', repo = e ''REPO'', issue_number = prNumber, body = message\<rparr>)"

definition comment_body :: "world \<Rightarrow> event \<Rightarrow> (string \<rightharpoonup> ustr) \<Rightarrow> api_call list \<times> (js_error + unit)" where
  "comment_body w ev e =
     ([Issues_createComment (comment_request w ev e)],
      issues_createComment w (comment_request w ev e))"

definition comment_on_the_merged_pull_request :: "world \<Rightarrow> event \<Rightarrow> run_state \<Rightarrow> run_state" where
  "comment_on_the_merged_pull_request w ev st =
     (case comment_body w ev (env st) of
        (cs, Inl error) \<Rightarrow>
          st\<lparr>calls := calls st @ cs,
             failed := Some (asc ''Error creating comment: '' @ error_message error)\<rparr>
      | (cs, Inr _) \<Rightarrow>
          st\<lparr>calls := calls st @ cs,
             comments := comments st @ [comment_request w ev (env st)]\<rparr>)"

subsection \<open>The job\<close>

text \<open>
  The job is skipped when its condition is false. Its steps run in order, and a step runs
  only if no step before it failed (no step has a condition or \<^verbatim>\<open>continue-on-error\<close>).
\<close>

datatype conclusion = Skipped | Failure | Success

definition comment_on_merged_pull_request :: "world \<Rightarrow> event \<Rightarrow> conclusion \<times> run_state" where
  "comment_on_merged_pull_request w ev =
     (if \<not> job_if ev then (Skipped, initial_state)
      else case checkout_error w of
        Some err \<Rightarrow> (Failure, initial_state\<lparr>failed := Some err\<rparr>)
      | None \<Rightarrow>
          (let s1 = set_environment_variables ev initial_state;
               s2 = count_merged_pull_requests w s1
           in if failed s2 \<noteq> None then (Failure, s2)
              else (let s3 = comment_on_the_merged_pull_request w ev s2
                    in if failed s3 \<noteq> None then (Failure, s3) else (Success, s3))))"

text \<open>The workflow: nothing runs on an event other than a closed \<^verbatim>\<open>pull_request_target\<close>.\<close>

definition workflow :: "world \<Rightarrow> event \<Rightarrow> (conclusion \<times> run_state) option" where
  "workflow w ev = (if on_trigger ev then Some (comment_on_merged_pull_request w ev) else None)"

subsection \<open>Notions the properties are stated with\<close>

text \<open>
  An item as the search answers for a \<^verbatim>\<open>type:pr\<close> query: it has its \<^verbatim>\<open>pull_request\<close>, and
  \<^verbatim>\<open>merged_at\<close> is \<^verbatim>\<open>null\<close> or a timestamp, which is never the empty text.
\<close>

definition api_item :: "search_item \<Rightarrow> bool" where
  "api_item pr =
     (case pull_request pr of
        None \<Rightarrow> False
      | Some p \<Rightarrow> (case merged_at p of None \<Rightarrow> True | Some t \<Rightarrow> t \<noteq> []))"

definition merged_at_is_set :: "search_item \<Rightarrow> bool" where
  "merged_at_is_set pr =
     (case pull_request pr of None \<Rightarrow> False | Some p \<Rightarrow> merged_at p \<noteq> None)"

text \<open>
  A celebratory message that mentions a login: the text holds one of the seven
  congratulations of the script, in bold and addressed to \<^verbatim>\<open>@login\<close>.
\<close>

definition congratulations :: "ustr list" where
  "congratulations =
     [asc ''Fantastic work '', asc ''Well done '', asc ''You're on fire, '', asc ''High five, '',
      asc ''Double digits, '', asc ''Incredible, '', asc ''Great job, '']"

definition celebrates :: "ustr \<Rightarrow> ustr \<Rightarrow> bool" where
  "celebrates login text =
     list_ex (\<lambda>g. sublist (asc ''**'' @ g @ asc ''@'' @ login @ asc ''!**'') text) congratulations"

text \<open>The query for the closed pull requests of the event's author in the event's repository.\<close>

definition closed_prs_of_author :: "event \<Rightarrow> search_params" where
  "closed_prs_of_author ev =
     \<lparr>q = asc ''repo:'' @ repository_owner_login ev @ asc ''/'' @ repository_name ev @
           asc '' type:pr state:closed author:'' @ pull_request_user_login ev,
      per_page = 1000\<rparr>"

subsection \<open>Concrete runs\<close>

text \<open>
  A merged pull request number 7 by \<^verbatim>\<open>alice\<close>, and three worlds: one where the search finds
  two closed pull requests of hers, one of them merged, and the comment is created; one where
  the search throws; one where creating the comment throws. \<^verbatim>\<open>Math.random()\<close> gives the
  double nearest to 0.7, and Numbers beyond the integers below \<open>2 ^ 53\<close> do not occur.
\<close>

definition merged_event :: event where
  "merged_event =
     \<lparr>event_name = ''pull_request_target'', action = ''closed'', pull_request_merged = True,
      pull_request_user_login = asc ''alice'', pull_request_number = 7,
      repository_name = asc ''classiq-library'', repository_owner_login = asc ''Classiq''\<rparr>"

definition two_closed_prs :: "search_item list" where
  "two_closed_prs =
     [\<lparr>pull_request = Some \<lparr>merged_at = Some (asc ''2024-05-01T10:00:00Z'')\<rparr>\<rparr>,
      \<lparr>pull_request = Some \<lparr>merged_at = None\<rparr>\<rparr>]"

definition good_world :: world where
  "good_world =
     \<lparr>checkout_error = None,
      search_issuesAndPullRequests = (\<lambda>p. Inr two_closed_prs),
      issues_createComment = (\<lambda>p. Inr ()),
      random = 6305039478318694 / 2 ^ 53,
      number_toString = (\<lambda>x. [])\<rparr>"

definition search_throws :: world where
  "search_throws =
     good_world\<lparr>search_issuesAndPullRequests := (\<lambda>p. Inl (Error (asc ''API rate limit exceeded'')))\<rparr>"

definition comment_throws :: world where
  "comment_throws =
     good_world\<lparr>issues_createComment := (\<lambda>p. Inl (Error (asc ''Resource not accessible by integration'')))\<rparr>"

section \<open>The \<^verbatim>\<open>.qmod\<close> files\<close>

subsection \<open>Syntax\<close>

text \<open>
  The syntax of the Qmod texts under \<^verbatim>\<open>src\<close>, as far as they use it. Numbers and types are
  kept as they are written. \<open>Op\<close> is an operator or a classical function applied to its
  arguments (\<open>neg\<close> is the unary minus); \<open>InplaceMul\<close> is \<^verbatim>\<open>*=\<close>, \<open>Bind\<close> is \<^verbatim>\<open>->\<close> and \<open>Assign\<close>
  is the numeric assignment \<^verbatim>\<open>=\<close> (\<^verbatim>\<open>|=\<close> in Python), which none of the four texts uses and
  \<^verbatim>\<open>design.ipynb\<close> does.
\<close>

datatype expr =
    Var string
  | Lit string
  | Field expr string
  | Index expr expr
  | Op string "expr list"
  | ListE "expr list"
  | StructE string "string list" "expr list"
  | EnumE string string
  | Lambda "string list" "stmt list"
and stmt =
    Decl string string
  | Call expr "expr list"
  | Repeat string expr "stmt list"
  | Power expr "stmt list"
  | Control expr "stmt list"
  | IfElse expr "stmt list" "stmt list"
  | Within "stmt list" "stmt list"
  | Phase expr expr
  | InplaceMul expr expr
  | Bind "expr list" "expr list"
  | Assign expr expr

record param =
  param_name :: string
  param_type :: string
  is_output :: bool

datatype item =
    QStruct string "(string \<times> string) list"
  | QFunc string "param list" "stmt list"
  | CScope string

type_synonym qmod = "item list"

fun find_qfunc :: "qmod \<Rightarrow> string \<Rightarrow> (param list \<times> stmt list) option" where
  "find_qfunc [] f = None"
| "find_qfunc (QFunc n ps b # rest) f = (if n = f then Some (ps, b) else find_qfunc rest f)"
| "find_qfunc (_ # rest) f = find_qfunc rest f"

fun is_cscope :: "item \<Rightarrow> bool" where
  "is_cscope (CScope _) = True"
| "is_cscope _ = False"

subsection \<open>Where a variable is initialised and where it is used\<close>

text \<open>
  The ways a statement initialises a variable, as \<^verbatim>\<open>design.ipynb\<close> lists them: with
  \<^verbatim>\<open>allocate\<close>; with \<^verbatim>\<open>prepare_state\<close> or \<^verbatim>\<open>prepare_amplitudes\<close>; with a numeric assignment
  (of a number or of the result of a numeric operation); with the bind operation \<^verbatim>\<open>->\<close>; with
  any function that declares its argument \<^verbatim>\<open>output\<close>.
\<close>

datatype initialiser = ByAllocate | ByPrepare | ByAssignment | ByBind | ByOutput

datatype mention = Initialised initialiser string | Used string

fun mentioned :: "mention \<Rightarrow> string" where
  "mentioned (Initialised _ v) = v"
| "mentioned (Used v) = v"

text \<open>
  The functions of the library that declare an argument \<^verbatim>\<open>output\<close>, with the position of
  the argument, as far as the models call them: \<^verbatim>\<open>unnamed/part_000\<close> documents
  \<^verbatim>\<open>encode_in_angle\<close> and \<^verbatim>\<open>encode_on_bloch\<close> with the arguments \<^verbatim>\<open>data: CArray[Creal]\<close> and
  \<^verbatim>\<open>qba: Output[QArray[QBit]]\<close>.
\<close>

definition library_outputs :: "(string \<times> nat) list" where
  "library_outputs = [(''encode_in_angle'', 1), (''encode_on_bloch'', 1)]"

text \<open>
  \<open>initialises file f n k\<close>: does argument \<open>k\<close> of a call of \<open>f\<close> with \<open>n\<close> arguments initialise?
  \<^verbatim>\<open>allocate\<close>, \<^verbatim>\<open>prepare_state\<close> and \<^verbatim>\<open>prepare_amplitudes\<close> initialise their last argument.
\<close>

definition initialises :: "qmod \<Rightarrow> string \<Rightarrow> nat \<Rightarrow> nat \<Rightarrow> initialiser option" where
  "initialises file f n k =
     (if f = ''allocate'' then (if Suc k = n then Some ByAllocate else None)
      else if f = ''prepare_state'' \<or> f = ''prepare_amplitudes''
        then (if Suc k = n then Some ByPrepare else None)
      else case find_qfunc file f of
             None \<Rightarrow> if (f, k) \<in> set library_outputs then Some ByOutput else None
           | Some (ps, _) \<Rightarrow> if k < length ps \<and> is_output (ps ! k) then Some ByOutput else None)"

fun arg_mentions :: "(nat \<Rightarrow> initialiser option) \<Rightarrow> nat \<times> expr \<times> mention list \<Rightarrow> mention list" where
  "arg_mentions init (k, Var v, ms) = (case init k of Some i \<Rightarrow> [Initialised i v] | None \<Rightarrow> ms)"
| "arg_mentions init (k, a, ms) = ms"

definition call_mentions ::
  "(nat \<Rightarrow> initialiser option) \<Rightarrow> expr list \<Rightarrow> mention list list \<Rightarrow> mention list" where
  "call_mentions init args mss =
     concat (map (arg_mentions init) (zip [0..<length args] (zip args mss)))"

text \<open>Inside a lambda or a \<^verbatim>\<open>repeat\<close>, the bound names are not the variables outside.\<close>

definition shadow :: "string list \<Rightarrow> mention list \<Rightarrow> mention list" where
  "shadow names ms = filter (\<lambda>m. mentioned m \<notin> set names) ms"

text \<open>
  The mentions of variables in an expression and a statement, in the order of the text; an
  assignment reads its right side before it initialises its left side. \<^verbatim>\<open>v.size\<close> and
  \<^verbatim>\<open>v.len\<close> read the declared type of \<open>v\<close>, not \<open>v\<close>. The name of a called function is not a
  variable.
\<close>

fun mentions_expr :: "qmod \<Rightarrow> expr \<Rightarrow> mention list"
  and mentions_stmt :: "qmod \<Rightarrow> stmt \<Rightarrow> mention list" where
  "mentions_expr file (Var v) = [Used v]"
| "mentions_expr file (Lit _) = []"
| "mentions_expr file (Field e f) =
     (if f = ''size'' \<or> f = ''len'' then [] else mentions_expr file e)"
| "mentions_expr file (Index e i) = mentions_expr file e @ mentions_expr file i"
| "mentions_expr file (Op _ es) = concat (map (mentions_expr file) es)"
| "mentions_expr file (ListE es) = concat (map (mentions_expr file) es)"
| "mentions_expr file (StructE _ _ es) = concat (map (mentions_expr file) es)"
| "mentions_expr file (EnumE _ _) = []"
| "mentions_expr file (Lambda ps block) = shadow ps (concat (map (mentions_stmt file) block))"
| "mentions_stmt file (Decl _ _) = []"
| "mentions_stmt file (Call (Var f) args) =
     call_mentions (initialises file f (length args)) args (map (mentions_expr file) args)"
| "mentions_stmt file (Call c args) =
     mentions_expr file c @ concat (map (mentions_expr file) args)"
| "mentions_stmt file (Repeat i n block) =
     mentions_expr file n @ shadow [i] (concat (map (mentions_stmt file) block))"
| "mentions_stmt file (Power e block) =
     mentions_expr file e @ concat (map (mentions_stmt file) block)"
| "mentions_stmt file (Control e block) =
     mentions_expr file e @ concat (map (mentions_stmt file) block)"
| "mentions_stmt file (IfElse e a b) =
     mentions_expr file e @ concat (map (mentions_stmt file) a) @ concat (map (mentions_stmt file) b)"
| "mentions_stmt file (Within a b) =
     concat (map (mentions_stmt file) a) @ concat (map (mentions_stmt file) b)"
| "mentions_stmt file (Phase e t) = mentions_expr file e @ mentions_expr file t"
| "mentions_stmt file (InplaceMul target e) = mentions_expr file target @ mentions_expr file e"
| "mentions_stmt file (Bind ins outs) =
     concat (map (mentions_expr file) ins) @
     concat (map (\<lambda>e. case e of Var v \<Rightarrow> [Initialised ByBind v] | _ \<Rightarrow> mentions_expr file e) outs)"
| "mentions_stmt file (Assign target e) =
     mentions_expr file e @
     (case target of Var v \<Rightarrow> [Initialised ByAssignment v] | _ \<Rightarrow> mentions_expr file target)"

subsection \<open>Initialised before use\<close>

text \<open>
  The quantum variables of a function are its \<^verbatim>\<open>output\<close> parameters and its local
  declarations.
\<close>

definition declared :: "stmt list \<Rightarrow> string list" where
  "declared block = concat (map (\<lambda>s. case s of Decl v _ \<Rightarrow> [v] | _ \<Rightarrow> []) block)"


fun first_mention :: "string \<Rightarrow> mention list \<Rightarrow> mention option" where
  "first_mention v [] = None"
| "first_mention v (m # ms) = (if mentioned m = v then Some m else first_mention v ms)"

text \<open>Initialised before any other use, by one of the allowed ways: the first mention says so.\<close>

definition initialised_before_use :: "initialiser list \<Rightarrow> mention list \<Rightarrow> string \<Rightarrow> bool" where
  "initialised_before_use allowed ms v =
     (case first_mention v ms of
        None \<Rightarrow> True
      | Some (Initialised i _) \<Rightarrow> i \<in> set allowed
      | Some (Used _) \<Rightarrow> False)"

definition main_mentions :: "qmod \<Rightarrow> mention list" where
  "main_mentions file =
     (case find_qfunc file ''main'' of
        None \<Rightarrow> []
      | Some (ps, block) \<Rightarrow> concat (map (mentions_stmt file) block))"


subsection \<open>Self-contained\<close>

text \<open>
  The names that the models use and do not declare: the functions, the struct and the
  enumeration of the Qmod library (the package \<^verbatim>\<open>classiq\<close>, which is not part of the
  repository), and the operators and classical functions of expressions.
\<close>

definition qmod_library :: "string list" where
  "qmod_library =
     [''allocate'', ''prepare_state'', ''prepare_amplitudes'', ''inplace_prepare_state'',
      ''hadamard_transform'', ''apply_to_all'', ''RX'', ''X'', ''unitary'', ''suzuki_trotter'',
      ''qpe_flexible'', ''grover_diffuser'', ''qst_type2'', ''qct_type2'',
      ''encode_in_angle'', ''encode_on_bloch'']"

definition library_structs :: "string list" where
  "library_structs = [''PauliTerm'']"

definition library_enums :: "string list" where
  "library_enums = [''Pauli'']"

definition operators :: "string list" where
  "operators = [''+'', ''-'', ''*'', ''/'', ''**'', ''=='', ''neg'', ''ceiling'', ''log'']"

fun qstruct_names :: "qmod \<Rightarrow> string list" where
  "qstruct_names [] = []"
| "qstruct_names (QStruct n _ # rest) = n # qstruct_names rest"
| "qstruct_names (_ # rest) = qstruct_names rest"

text \<open>
  The names that an expression or a statement uses and that nothing declares. \<open>scope\<close> holds
  the parameters of the function, the variables that the enclosing blocks declare, the
  parameters of the enclosing lambdas and the indices of the enclosing \<^verbatim>\<open>repeat\<close>s. A called
  function is a function of the file, an operand in scope or a function of the library.
  Types are kept as texts and are not resolved.
\<close>

fun unresolved_expr :: "qmod \<Rightarrow> string list \<Rightarrow> expr \<Rightarrow> string list"
  and unresolved_stmt :: "qmod \<Rightarrow> string list \<Rightarrow> stmt \<Rightarrow> string list" where
  "unresolved_expr file scope (Var v) = (if v \<in> set scope then [] else [v])"
| "unresolved_expr file scope (Lit _) = []"
| "unresolved_expr file scope (Field e _) = unresolved_expr file scope e"
| "unresolved_expr file scope (Index e i) =
     unresolved_expr file scope e @ unresolved_expr file scope i"
| "unresolved_expr file scope (Op f es) =
     (if f \<in> set operators then [] else [f]) @ concat (map (unresolved_expr file scope) es)"
| "unresolved_expr file scope (ListE es) = concat (map (unresolved_expr file scope) es)"
| "unresolved_expr file scope (StructE n _ es) =
     (if n \<in> set (qstruct_names file) \<or> n \<in> set library_structs then [] else [n]) @
     concat (map (unresolved_expr file scope) es)"
| "unresolved_expr file scope (EnumE n _) = (if n \<in> set library_enums then [] else [n])"
| "unresolved_expr file scope (Lambda ps block) =
     concat (map (unresolved_stmt file (declared block @ ps @ scope)) block)"
| "unresolved_stmt file scope (Decl _ _) = []"
| "unresolved_stmt file scope (Call (Var f) args) =
     (if f \<in> set scope \<or> find_qfunc file f \<noteq> None \<or> f \<in> set qmod_library then [] else [f]) @
     concat (map (unresolved_expr file scope) args)"
| "unresolved_stmt file scope (Call c args) =
     unresolved_expr file scope c @ concat (map (unresolved_expr file scope) args)"
| "unresolved_stmt file scope (Repeat i n block) =
     unresolved_expr file scope n @
     concat (map (unresolved_stmt file (declared block @ i # scope)) block)"
| "unresolved_stmt file scope (Power e block) =
     unresolved_expr file scope e @
     concat (map (unresolved_stmt file (declared block @ scope)) block)"
| "unresolved_stmt file scope (Control e block) =
     unresolved_expr file scope e @
     concat (map (unresolved_stmt file (declared block @ scope)) block)"
| "unresolved_stmt file scope (IfElse e a b) =
     unresolved_expr file scope e @
     concat (map (unresolved_stmt file (declared a @ scope)) a) @
     concat (map (unresolved_stmt file (declared b @ scope)) b)"
| "unresolved_stmt file scope (Within a b) =
     concat (map (unresolved_stmt file (declared a @ scope)) a) @
     concat (map (unresolved_stmt file (declared b @ scope)) b)"
| "unresolved_stmt file scope (Phase e t) =
     unresolved_expr file scope e @ unresolved_expr file scope t"
| "unresolved_stmt file scope (InplaceMul target e) =
     unresolved_expr file scope target @ unresolved_expr file scope e"
| "unresolved_stmt file scope (Bind ins outs) =
     concat (map (unresolved_expr file scope) ins) @ concat (map (unresolved_expr file scope) outs)"
| "unresolved_stmt file scope (Assign target e) =
     unresolved_expr file scope e @ unresolved_expr file scope target"



subsection \<open>No computation\<close>

text \<open>
  A file holds declarations of structs and functions and \<^verbatim>\<open>cscope\<close> blocks, and only a
  \<^verbatim>\<open>cscope\<close> block holds classical code. An execution directive is the text
  \<^verbatim>\<open>save({'run': sample(\<close>, arguments and \<^verbatim>\<open>)})\<close>, where the arguments are a literal: letters,
  digits, quotes, braces, brackets, colons, commas, dots, underscores and spaces, so no
  call, no operator and no second statement.
\<close>

definition literal_char :: "char \<Rightarrow> bool" where
  "literal_char c =
     (c \<in> set ''abcdefghijklmnopqrstuvwxyzABCDEFGHIJKLMNOPQRSTUVWXYZ0123456789{}[]:,._ '' \<or>
      c = CHR 0x27 \<or> c = CHR 0x22)"

definition execution_directive :: "string \<Rightarrow> bool" where
  "execution_directive text =
     (let opening = ''save({'run': sample(''; closing = '')})'' in
      length opening + length closing \<le> length text \<and>
      take (length opening) text = opening \<and>
      drop (length text - length closing) text = closing \<and>
      list_all literal_char
        (take (length text - length opening - length closing) (drop (length opening) text)))"



subsection \<open>A declarative model\<close>


subsection \<open>The four files\<close>

text \<open>\<^verbatim>\<open>applications/optimization/set_cover/set_cover.qmod\<close>\<close>

definition set_cover :: qmod where
  "set_cover =
    [QStruct ''QAOAVars''
       [(''x'', ''qbit[8]''),
        (''independent_rule_1_slack_var'', ''qbit[1]''),
        (''independent_rule_2_slack_var'', ''qbit[2]''),
        (''independent_rule_3_slack_var'', ''qbit[2]''),
        (''independent_rule_4_slack_var'', ''qbit[2]''),
        (''independent_rule_5_slack_var'', ''qbit[1]''),
        (''independent_rule_6_slack_var'', ''qbit[1]''),
        (''independent_rule_7_slack_var'', ''qbit[2]''),
        (''independent_rule_8_slack_var'', ''qbit[2]''),
        (''independent_rule_9_slack_var'', ''qbit[1]''),
        (''independent_rule_10_slack_var'', ''qbit[1]'')],
     QFunc ''main''
       [\<lparr>param_name = ''params'', param_type = ''real[6]'', is_output = False\<rparr>,
        \<lparr>param_name = ''v'', param_type = ''QAOAVars'', is_output = True\<rparr>]
       [Call (Var ''allocate'') [Field (Var ''v'') ''size'', Var ''v''],
        Call (Var ''hadamard_transform'') [Var ''v''],
        Repeat ''i'' (Lit ''3'')
          [Phase
             (Op ''neg''
                [Op ''+''
                   [Op ''+''
                      [Op ''+''
                         [Op ''+''
                            [Op ''+''
                               [Op ''+''
                                  [Op ''+''
                                     [Op ''+''
                                        [Op ''+''
                                           [Op ''+''
                                              [Op ''+''
                                                 [Op ''+''
                                                    [Op ''+''
                                                       [Op ''+''
                                                          [Op ''+''
                                                             [Op ''+''
                                                                [Op ''+''
                                                                   [Index
                                                                      (Field (Var ''v'') ''x'')
                                                                      (Lit ''0''),
                                                                    Index
                                                                      (Field (Var ''v'') ''x'')
                                                                      (Lit ''1'')],
                                                                 Index (Field (Var ''v'') ''x'')
                                                                   (Lit ''2'')],
                                                              Index (Field (Var ''v'') ''x'')
                                                                (Lit ''3'')],
                                                           Index (Field (Var ''v'') ''x'')
                                                             (Lit ''4'')],
                                                        Index (Field (Var ''v'') ''x'')
                                                          (Lit ''5'')],
                                                     Index (Field (Var ''v'') ''x'') (Lit ''6'')],
                                                  Index (Field (Var ''v'') ''x'') (Lit ''7'')],
                                               Op ''*''
                                                 [Lit ''20'',
                                                  Op ''**''
                                                    [Op ''+''
                                                       [Op ''-''
                                                          [Op ''-''
                                                             [Index
                                                                (Field (Var ''v'')
                                                                   ''independent_rule_10_slack_var'')
                                                                (Lit ''0''),
                                                              Index (Field (Var ''v'') ''x'')
                                                                (Lit ''3'')],
                                                           Index (Field (Var ''v'') ''x'')
                                                             (Lit ''6'')],
                                                        Lit ''1.0''],
                                                     Lit ''2'']]],
                                            Op ''*''
                                              [Lit ''20'',
                                               Op ''**''
                                                 [Op ''+''
                                                    [Op ''-''
                                                       [Op ''-''
                                                          [Index
                                                             (Field (Var ''v'')
                                                                ''independent_rule_1_slack_var'')
                                                             (Lit ''0''),
                                                           Index (Field (Var ''v'') ''x'')
                                                             (Lit ''0'')],
                                                        Index (Field (Var ''v'') ''x'')
                                                          (Lit ''4'')],
                                                     Lit ''1.0''],
                                                  Lit ''2'']]],
                                         Op ''*''
                                           [Lit ''20'',
                                            Op ''**''
                                              [Op ''+''
                                                 [Op ''-''
                                                    [Op ''-''
                                                       [Index
                                                          (Field (Var ''v'')
                                                             ''independent_rule_5_slack_var'')
                                                          (Lit ''0''),
                                                        Index (Field (Var ''v'') ''x'')
                                                          (Lit ''1'')],
                                                     Index (Field (Var ''v'') ''x'') (Lit ''7'')],
                                                  Lit ''1.0''],
                                               Lit ''2'']]],
                                      Op ''*''
                                        [Lit ''20'',
                                         Op ''**''
                                           [Op ''+''
                                              [Op ''-''
                                                 [Op ''-''
                                                    [Index
                                                       (Field (Var ''v'')
                                                          ''independent_rule_6_slack_var'')
                                                       (Lit ''0''),
                                                     Index (Field (Var ''v'') ''x'') (Lit ''2'')],
                                                  Index (Field (Var ''v'') ''x'') (Lit ''4'')],
                                               Lit ''1.0''],
                                            Lit ''2'']]],
                                   Op ''*''
                                     [Lit ''20'',
                                      Op ''**''
                                        [Op ''+''
                                           [Op ''-''
                                              [Op ''-''
                                                 [Index
                                                    (Field (Var ''v'')
                                                       ''independent_rule_9_slack_var'')
                                                    (Lit ''0''),
                                                  Index (Field (Var ''v'') ''x'') (Lit ''3'')],
                                               Index (Field (Var ''v'') ''x'') (Lit ''5'')],
                                            Lit ''1.0''],
                                         Lit ''2'']]],
                                Op ''*''
                                  [Lit ''20'',
                                   Op ''**''
                                     [Op ''+''
                                        [Op ''-''
                                           [Op ''-''
                                              [Op ''-''
                                                 [Op ''+''
                                                    [Index
                                                       (Field (Var ''v'')
                                                          ''independent_rule_2_slack_var'')
                                                       (Lit ''0''),
                                                     Index
                                                       (Field (Var ''v'')
                                                          ''independent_rule_2_slack_var'')
                                                       (Lit ''1'')],
                                                  Index (Field (Var ''v'') ''x'') (Lit ''0'')],
                                               Index (Field (Var ''v'') ''x'') (Lit ''1'')],
                                            Index (Field (Var ''v'') ''x'') (Lit ''7'')],
                                         Lit ''1.0''],
                                      Lit ''2'']]],
                             Op ''*''
                               [Lit ''20'',
                                Op ''**''
                                  [Op ''+''
                                     [Op ''-''
                                        [Op ''-''
                                           [Op ''-''
                                              [Op ''+''
                                                 [Index
                                                    (Field (Var ''v'')
                                                       ''independent_rule_3_slack_var'')
                                                    (Lit ''0''),
                                                  Index
                                                    (Field (Var ''v'')
                                                       ''independent_rule_3_slack_var'')
                                                    (Lit ''1'')],
                                               Index (Field (Var ''v'') ''x'') (Lit ''0'')],
                                            Index (Field (Var ''v'') ''x'') (Lit ''1'')],
                                         Index (Field (Var ''v'') ''x'') (Lit ''5'')],
                                      Lit ''1.0''],
                                   Lit ''2'']]],
                          Op ''*''
                            [Lit ''20'',
                             Op ''**''
                               [Op ''+''
                                  [Op ''-''
                                     [Op ''-''
                                        [Op ''-''
                                           [Op ''+''
                                              [Index
                                                 (Field (Var ''v'')
                                                    ''independent_rule_4_slack_var'')
                                                 (Lit ''0''),
                                               Index
                                                 (Field (Var ''v'')
                                                    ''independent_rule_4_slack_var'')
                                                 (Lit ''1'')],
                                            Index (Field (Var ''v'') ''x'') (Lit ''0'')],
                                         Index (Field (Var ''v'') ''x'') (Lit ''1'')],
                                      Index (Field (Var ''v'') ''x'') (Lit ''6'')],
                                   Lit ''1.0''],
                                Lit ''2'']]],
                       Op ''*''
                         [Lit ''20'',
                          Op ''**''
                            [Op ''+''
                               [Op ''-''
                                  [Op ''-''
                                     [Op ''-''
                                        [Op ''+''
                                           [Index
                                              (Field (Var ''v'')
                                                 ''independent_rule_7_slack_var'')
                                              (Lit ''0''),
                                            Index
                                              (Field (Var ''v'')
                                                 ''independent_rule_7_slack_var'')
                                              (Lit ''1'')],
                                         Index (Field (Var ''v'') ''x'') (Lit ''2'')],
                                      Index (Field (Var ''v'') ''x'') (Lit ''5'')],
                                   Index (Field (Var ''v'') ''x'') (Lit ''6'')],
                                Lit ''1.0''],
                             Lit ''2'']]],
                    Op ''*''
                      [Lit ''20'',
                       Op ''**''
                         [Op ''+''
                            [Op ''-''
                               [Op ''-''
                                  [Op ''-''
                                     [Op ''+''
                                        [Index
                                           (Field (Var ''v'') ''independent_rule_8_slack_var'')
                                           (Lit ''0''),
                                         Index
                                           (Field (Var ''v'') ''independent_rule_8_slack_var'')
                                           (Lit ''1'')],
                                      Index (Field (Var ''v'') ''x'') (Lit ''3'')],
                                   Index (Field (Var ''v'') ''x'') (Lit ''4'')],
                                Index (Field (Var ''v'') ''x'') (Lit ''7'')],
                             Lit ''1.0''],
                          Lit ''2'']]]])
             (Index (Var ''params'') (Var ''i'')),
           Call (Var ''apply_to_all'')
             [Lambda [''q'']
                [Call (Var ''RX'')
                   [Index (Var ''params'') (Op ''+'' [Lit ''3'', Var ''i'']), Var ''q'']],
              Var ''v'']]]]"

text \<open>\<^verbatim>\<open>algorithms/qpe/qpe_for_matrix/qpe_for_matrix.qmod\<close>\<close>

definition qpe_for_matrix :: qmod where
  "qpe_for_matrix =
    [QFunc ''unitary_with_power_logic''
       [\<lparr>param_name = ''pw'', param_type = ''int'', is_output = False\<rparr>,
        \<lparr>param_name = ''matrix'', param_type = ''real[][]'', is_output = False\<rparr>,
        \<lparr>param_name = ''target'', param_type = ''qbit[]'', is_output = False\<rparr>]
       [Power (Var ''pw'') [Call (Var ''unitary'') [Var ''matrix'', Var ''target'']]],
     QFunc ''suzuki_trotter1_with_power_logic''
       [\<lparr>param_name = ''hamiltonian'', param_type = ''PauliTerm[]'', is_output = False\<rparr>,
        \<lparr>param_name = ''pw'', param_type = ''int'', is_output = False\<rparr>,
        \<lparr>param_name = ''r0'', param_type = ''int'', is_output = False\<rparr>,
        \<lparr>param_name = ''reps_scaling_factor'', param_type = ''real'', is_output = False\<rparr>,
        \<lparr>param_name = ''evolution_coefficient'', param_type = ''real'', is_output = False\<rparr>,
        \<lparr>param_name = ''target'', param_type = ''qbit[]'', is_output = False\<rparr>]
       [Call (Var ''suzuki_trotter'')
          [Var ''hamiltonian'',
           Op ''*'' [Var ''evolution_coefficient'', Var ''pw''],
           Lit ''1'',
           Op ''*''
             [Var ''r0'',
              Op ''ceiling''
                [Op ''**'' [Var ''reps_scaling_factor'', Op ''log'' [Var ''pw'', Lit ''2'']]]],
           Var ''target'']],
     QFunc ''main''
       [\<lparr>param_name = ''phase_result'', param_type = ''qnum<8, False, 8>'', is_output = True\<rparr>]
       [Decl ''state'' ''qbit[]'',
        Call (Var ''prepare_amplitudes'')
          [ListE
             [Lit ''0.667440796614848'',
              Lit ''0.024885482173617'',
              Lit ''0.368323359032267'',
              Lit ''0.646715856448805''],
           Lit ''0.0'',
           Var ''state''],
        Call (Var ''allocate'') [Lit ''8'', Lit ''False'', Lit ''8'', Var ''phase_result''],
        Call (Var ''qpe_flexible'')
          [Lambda [''pw'']
             [IfElse (Lit ''True'')
                [Call (Var ''unitary_with_power_logic'')
                   [Var ''pw'',
                    ListE
                      [ListE
                         [Op ''-''
                            [Op ''neg'' [Lit ''0.800994193328528''], Lit ''0.432184369481798j''],
                          Op ''-'' [Lit ''0.18481604491471'', Lit ''0.230641913600945j''],
                          Op ''-'' [Lit ''0.182066604712991'', Lit ''0.208198484698175j''],
                          Op ''-'' [Lit ''0.010207121446984'', Lit ''0.087597188034849j'']],
                       ListE
                         [Op ''-'' [Lit ''0.18481604491471'', Lit ''0.230641913600945j''],
                          Op ''-''
                            [Op ''neg'' [Lit ''0.74259258995001''], Lit ''0.478111274957735j''],
                          Op ''-'' [Lit ''0.212289111070001'', Lit ''0.243461671831465j''],
                          Op ''+''
                            [Op ''neg'' [Lit ''0.07305797727484''], Lit ''0.151444613535273j'']],
                       ListE
                         [Op ''-'' [Lit ''0.18206660471299'', Lit ''0.208198484698175j''],
                          Op ''-'' [Lit ''0.212289111070001'', Lit ''0.243461671831465j''],
                          Op ''-''
                            [Op ''neg'' [Lit ''0.763886162414103''], Lit ''0.484576516522355j''],
                          Op ''+''
                            [Op ''neg'' [Lit ''0.026023894036146''], Lit ''0.012295427374176j'']],
                       ListE
                         [Op ''-'' [Lit ''0.010207121446984'', Lit ''0.087597188034849j''],
                          Op ''+''
                            [Op ''neg'' [Lit ''0.073057977274841''], Lit ''0.151444613535273j''],
                          Op ''+''
                            [Op ''neg'' [Lit ''0.026023894036146''], Lit ''0.012295427374176j''],
                          Op ''-''
                            [Op ''neg'' [Lit ''0.895413431349899''], Lit ''0.401691392328609j'']]],
                    Var ''state'']]
                [Call (Var ''suzuki_trotter1_with_power_logic'')
                   [ListE
                      [StructE ''PauliTerm'' [''pauli'', ''coefficient'']
                         [ListE [EnumE ''Pauli'' ''I'', EnumE ''Pauli'' ''I''], Lit ''0.4''],
                       StructE ''PauliTerm'' [''pauli'', ''coefficient'']
                         [ListE [EnumE ''Pauli'' ''I'', EnumE ''Pauli'' ''Z''],
                          Lit ''0.01504032''],
                       StructE ''PauliTerm'' [''pauli'', ''coefficient'']
                         [ListE [EnumE ''Pauli'' ''Z'', EnumE ''Pauli'' ''I''],
                          Lit ''0.016634415''],
                       StructE ''PauliTerm'' [''pauli'', ''coefficient'']
                         [ListE [EnumE ''Pauli'' ''Z'', EnumE ''Pauli'' ''Z''],
                          Op ''neg'' [Lit ''0.042759185'']],
                       StructE ''PauliTerm'' [''pauli'', ''coefficient'']
                         [ListE [EnumE ''Pauli'' ''I'', EnumE ''Pauli'' ''X''],
                          Lit ''0.10676978''],
                       StructE ''PauliTerm'' [''pauli'', ''coefficient'']
                         [ListE [EnumE ''Pauli'' ''Z'', EnumE ''Pauli'' ''X''],
                          Lit ''0.12638833''],
                       StructE ''PauliTerm'' [''pauli'', ''coefficient'']
                         [ListE [EnumE ''Pauli'' ''X'', EnumE ''Pauli'' ''I''],
                          Lit ''0.042057265''],
                       StructE ''PauliTerm'' [''pauli'', ''coefficient'']
                         [ListE [EnumE ''Pauli'' ''X'', EnumE ''Pauli'' ''Z''],
                          Lit ''0.172936455''],
                       StructE ''PauliTerm'' [''pauli'', ''coefficient'']
                         [ListE [EnumE ''Pauli'' ''X'', EnumE ''Pauli'' ''X''],
                          Lit ''0.15658719''],
                       StructE ''PauliTerm'' [''pauli'', ''coefficient'']
                         [ListE [EnumE ''Pauli'' ''Y'', EnumE ''Pauli'' ''Y''],
                          Lit ''0.09539162'']],
                    Var ''pw'',
                    Lit ''2'',
                    Lit ''1.8'',
                    Op ''neg'' [Lit ''6.283185307179586''],
                    Var ''state'']]],
           Var ''phase_result'']]]"


text \<open>The Qmod text \<^verbatim>\<open>unnamed/part_003\<close> (a discrete quantum walk).\<close>

definition unnamed_part_003 :: qmod where
  "unnamed_part_003 =
    [QFunc ''discrete_quantum_walk''
       [\<lparr>param_name = ''time'', param_type = ''int'', is_output = False\<rparr>,
        \<lparr>param_name = ''coin_flip_qfunc'', param_type = ''qfunc (qnum)'', is_output = False\<rparr>,
        \<lparr>param_name = ''walks_qfuncs'', param_type = ''qfunc[] ()'', is_output = False\<rparr>,
        \<lparr>param_name = ''coin_state'', param_type = ''qnum'', is_output = False\<rparr>]
       [Power (Var ''time'')
          [Call (Var ''coin_flip_qfunc'') [Var ''coin_state''],
           Repeat ''i'' (Field (Var ''walks_qfuncs'') ''len'')
             [Control (Op ''=='' [Var ''coin_state'', Var ''i''])
                [Call (Index (Var ''walks_qfuncs'') (Var ''i'')) []]]]],
     QFunc ''moving_one_hamming_dist''
       [\<lparr>param_name = ''pos'', param_type = ''int'', is_output = False\<rparr>,
        \<lparr>param_name = ''x'', param_type = ''qbit[]'', is_output = False\<rparr>]
       [Call (Var ''X'') [Index (Var ''x'') (Var ''pos'')]],
     QFunc ''main''
       [\<lparr>param_name = ''t'', param_type = ''int'', is_output = False\<rparr>,
        \<lparr>param_name = ''x'', param_type = ''qbit[]'', is_output = True\<rparr>]
       [Call (Var ''allocate'') [Lit ''4'', Var ''x''],
        Decl ''coin'' ''qbit[]'',
        Call (Var ''prepare_state'')
          [ListE [Lit ''0.25'', Lit ''0.25'', Lit ''0.25'', Lit ''0.25''],
           Lit ''0.0'',
           Var ''coin''],
        Call (Var ''discrete_quantum_walk'')
          [Var ''t'',
           Lambda [''coin'']
             [Call (Var ''grover_diffuser'')
                [Lambda [''coin'']
                   [Call (Var ''inplace_prepare_state'')
                      [ListE [Lit ''0.25'', Lit ''0.25'', Lit ''0.25'', Lit ''0.25''],
                       Lit ''0.0'',
                       Var ''coin'']],
                 Var ''coin'']],
           ListE
             [Lambda [] [Call (Var ''moving_one_hamming_dist'') [Lit ''0'', Var ''x'']],
              Lambda [] [Call (Var ''moving_one_hamming_dist'') [Lit ''1'', Var ''x'']],
              Lambda [] [Call (Var ''moving_one_hamming_dist'') [Lit ''2'', Var ''x'']],
              Lambda [] [Call (Var ''moving_one_hamming_dist'') [Lit ''3'', Var ''x'']]],
           Var ''coin'']],
     CScope ''save({'run': sample({'t': 4})})'']"

subsection \<open>The models that notebooks write\<close>


definition encode_in_angle :: qmod where
  "encode_in_angle =
    [QFunc ''main''
      [\<lparr>param_name = ''data'', param_type = ''CArray[CReal, 4]'', is_output = False\<rparr>,
       \<lparr>param_name = ''x'', param_type = ''QArray[QBit]'', is_output = True\<rparr>]
      [Call (Var ''encode_in_angle'') [Var ''data'', Var ''x'']]]"

definition encode_on_bloch :: qmod where
  "encode_on_bloch =
    [QFunc ''main''
      [\<lparr>param_name = ''data'', param_type = ''CArray[CReal, 7]'', is_output = False\<rparr>,
       \<lparr>param_name = ''x'', param_type = ''QArray[QBit]'', is_output = True\<rparr>]
      [Call (Var ''encode_on_bloch'') [Var ''data'', Var ''x'']]]"


section \<open>Properties of the pre-commit configuration\<close>

subsection \<open>What the patterns match\<close>

lemma re_match_lits:
  "re_match (lits w) i s k = (\<exists>t. s = w @ t \<and> k (i + length w) t)"
proof (induction w arbitrary: i s)
  case Nil
  show ?case by simp
next
  case (Cons c w)
  show ?case
  proof (cases s)
    case Nil
    then show ?thesis by simp
  next
    case (Cons x xs)
    then show ?thesis using Cons.IH [of "Suc i" xs] by auto
  qed
qed

lemma re_match_plus_notspace:
  "re_match (Plus NotSpace) i s k =
     (\<exists>n. 0 < n \<and> n \<le> length s \<and> \<not> list_ex is_space (take n s) \<and> k (i + n) (drop n s))"
proof (induction s arbitrary: i)
  case Nil
  show ?case by simp
next
  case (Cons x xs)
  show ?case (is "?L = ?R")
  proof
    assume L: ?L
    then have nx: "\<not> is_space x" and d: "re_match (Plus NotSpace) (Suc i) xs k \<or> k (Suc i) xs"
      by auto
    from d show ?R
    proof
      assume "re_match (Plus NotSpace) (Suc i) xs k"
      then obtain n where n: "0 < n" "n \<le> length xs" "\<not> list_ex is_space (take n xs)"
          "k (Suc i + n) (drop n xs)"
        using Cons.IH [of "Suc i"] by blast
      show ?R
        by (rule exI [of _ "Suc n"]) (use n nx in simp)
    next
      assume "k (Suc i) xs"
      show ?R
        by (rule exI [of _ "Suc 0"]) (use \<open>k (Suc i) xs\<close> nx in simp)
    qed
  next
    assume ?R
    then obtain n where n: "0 < n" "n \<le> length (x # xs)" "\<not> list_ex is_space (take n (x # xs))"
        "k (i + n) (drop n (x # xs))"
      by blast
    then obtain n' where n': "n = Suc n'" by (cases n) auto
    from n n' have nx: "\<not> is_space x" and rest: "\<not> list_ex is_space (take n' xs)"
      and kk: "k (Suc i + n') (drop n' xs)" and len: "n' \<le> length xs"
      by auto
    show ?L
    proof (cases "n' = 0")
      case True
      with kk nx show ?thesis by simp
    next
      case False
      then have "re_match (Plus NotSpace) (Suc i) xs k"
        using Cons.IH [of "Suc i"] rest kk len by blast
      with nx show ?thesis by simp
    qed
  qed
qed

lemma re_search_anchored:
  "re_search (Seq Bol r) s = re_match r 0 s (\<lambda>j t. True)"
proof -
  have "list_ex (\<lambda>i. i = 0 \<and> re_match r i (drop i s) (\<lambda>j t. True)) [0..<Suc (length s)]
        = re_match r 0 s (\<lambda>j t. True)"
    by (auto simp: list_ex_iff)
  then show ?thesis by (simp add: re_search_def)
qed

lemma re_match_Chr:
  "re_match (Chr c) i s k = (\<exists>t. s = c # t \<and> k (Suc i) t)"
  by (cases s) auto

lemma re_match_tail:
  "re_match (seqs [Chr 46, rx, Eol]) i s (\<lambda>j t. True) =
     (\<exists>t. s = 46 # t \<and> re_match rx (Suc i) t (\<lambda>j u. u = [] \<or> u = [10]))"
  by (simp add: re_match_Chr)

lemma re_search_dotted:
  "re_search (seqs [Bol, Plus NotSpace, Chr 46, rx, Eol]) p =
     (\<exists>n. 0 < n \<and> n \<le> length p \<and> \<not> list_ex is_space (take n p) \<and>
          (\<exists>t. drop n p = 46 # t \<and> re_match rx (Suc n) t (\<lambda>j u. u = [] \<or> u = [10])))"
proof -
  have "re_search (seqs [Bol, Plus NotSpace, Chr 46, rx, Eol]) p =
        re_match (Plus NotSpace) 0 p (\<lambda>j t. re_match (seqs [Chr 46, rx, Eol]) j t (\<lambda>j t. True))"
    using re_search_anchored [of "seqs [Plus NotSpace, Chr 46, rx, Eol]" p] by simp
  then show ?thesis
    unfolding re_match_plus_notspace re_match_tail by simp
qed

lemma re_search_one_ext:
  "re_search (seqs [Bol, Plus NotSpace, Chr 46, lits e, Eol]) p =
     (\<exists>stem. stem \<noteq> [] \<and> \<not> list_ex is_space stem \<and>
        (p = stem @ 46 # e \<or> p = stem @ 46 # e @ [10]))"
  (is "?L = ?R")
proof
  assume ?L
  then obtain n t where n: "0 < n" "n \<le> length p" "\<not> list_ex is_space (take n p)"
      and d: "drop n p = 46 # t" and tl: "t = e \<or> t = e @ [10]"
    unfolding re_search_dotted re_match_lits by auto
  have "p = take n p @ 46 # t" using n d by (metis append_take_drop_id)
  moreover have "take n p \<noteq> []" using n by auto
  ultimately show ?R using n tl by blast
next
  assume ?R
  then obtain stem where s: "stem \<noteq> []" "\<not> list_ex is_space stem"
      and p: "p = stem @ 46 # e \<or> p = stem @ 46 # e @ [10]"
    by blast
  from p obtain u where u: "p = stem @ 46 # e @ u" "u = [] \<or> u = [10]" by auto
  show ?L
    unfolding re_search_dotted re_match_lits
    by (rule exI [of _ "length stem"]) (use s u in auto)
qed

lemma re_search_alt:
  "re_search (seqs [Bol, Plus NotSpace, Chr 46, Alt a b, Eol]) p =
     (re_search (seqs [Bol, Plus NotSpace, Chr 46, a, Eol]) p \<or>
      re_search (seqs [Bol, Plus NotSpace, Chr 46, b, Eol]) p)"
  unfolding re_search_dotted by auto

lemma re_search_ipynb:
  "re_search re_ipynb p =
     re_search (seqs [Bol, Plus NotSpace, Chr 46, lits (asc ''ipynb''), Eol]) p"
  by (simp only: re_ipynb_def)

lemma re_search_qmod:
  "re_search re_qmod p =
     re_search (seqs [Bol, Plus NotSpace, Chr 46, lits (asc ''qmod''), Eol]) p"
  by (simp only: re_qmod_def)

lemma re_search_qmod_ipynb_yaml:
  "re_search re_qmod_ipynb_yaml p =
     (re_search (seqs [Bol, Plus NotSpace, Chr 46, lits (asc ''qmod''), Eol]) p \<or>
      re_search (seqs [Bol, Plus NotSpace, Chr 46, lits (asc ''ipynb''), Eol]) p \<or>
      re_search (seqs [Bol, Plus NotSpace, Chr 46, lits (asc ''yaml''), Eol]) p)"
  by (simp only: re_qmod_ipynb_yaml_def re_search_alt)

lemma selected_form:
  assumes "h \<in> set local_hooks" "hook_selects h p"
  shows "\<exists>stem e. stem \<noteq> [] \<and> \<not> list_ex is_space stem \<and>
           e \<in> {asc ''ipynb'', asc ''qmod'', asc ''yaml''} \<and>
           (p = stem @ 46 # e \<or> p = stem @ 46 # e @ [10])"
proof -
  from assms(1) have "files h = re_ipynb \<or> files h = re_qmod \<or> files h = re_qmod_ipynb_yaml"
    by (auto simp: local_hooks_def)
  with assms(2) have "re_search re_ipynb p \<or> re_search re_qmod p \<or> re_search re_qmod_ipynb_yaml p"
    unfolding hook_selects_def by auto
  then have
    "re_search (seqs [Bol, Plus NotSpace, Chr 46, lits (asc ''ipynb''), Eol]) p \<or>
     re_search (seqs [Bol, Plus NotSpace, Chr 46, lits (asc ''qmod''), Eol]) p \<or>
     re_search (seqs [Bol, Plus NotSpace, Chr 46, lits (asc ''yaml''), Eol]) p"
    unfolding re_search_ipynb re_search_qmod re_search_qmod_ipynb_yaml by blast
  then show ?thesis
    unfolding re_search_one_ext by blast
qed

lemma dot_ext:
  "46 # asc ''ipynb'' = ext_ipynb" "46 # asc ''qmod'' = ext_qmod" "46 # asc ''yaml'' = ext_yaml"
  by (simp_all add: asc_def ext_ipynb_def ext_qmod_def ext_yaml_def)

lemma ext_no_space:
  "\<not> list_ex is_space ext_ipynb" "\<not> list_ex is_space ext_qmod" "\<not> list_ex is_space ext_yaml"
  by (simp_all add: asc_def ext_ipynb_def ext_qmod_def ext_yaml_def is_space_def)

lemma checked_extension_last:
  assumes "has_checked_extension p"
  shows "p \<noteq> [] \<and> last p \<noteq> 10"
proof -
  from assms obtain stem e where p: "p = stem @ e" and e: "e = ext_ipynb \<or> e = ext_qmod \<or> e = ext_yaml"
    unfolding has_checked_extension_def suffix_def by blast
  from e have "e \<noteq> [] \<and> last e \<noteq> 10"
    by (auto simp: asc_def ext_ipynb_def ext_qmod_def ext_yaml_def)
  with p show ?thesis by simp
qed


subsection \<open>The hooks and the extensions\<close>

text \<open>
  The paths that trigger a local hook: each ends in \<^verbatim>\<open>.ipynb\<close>, \<^verbatim>\<open>.qmod\<close> or \<^verbatim>\<open>.yaml\<close>, or in
  one of these followed by a single final line feed, and nothing else does.
\<close>

lemma selected_paths:
  "\<forall>h \<in> set local_hooks. \<forall>p. hook_selects h p \<longrightarrow>
      has_checked_extension p \<or> (\<exists>stem. p = stem @ [10] \<and> has_checked_extension stem)"
proof (intro ballI allI impI)
  fix h p
  assume "h \<in> set local_hooks" "hook_selects h p"
  then obtain stem e where e: "e \<in> {asc ''ipynb'', asc ''qmod'', asc ''yaml''}"
      and p: "p = stem @ 46 # e \<or> p = stem @ 46 # e @ [10]"
    using selected_form by blast
  from e have c: "has_checked_extension (stem @ 46 # e)"
    unfolding has_checked_extension_def using dot_ext by (auto simp: suffix_def)
  from p show "has_checked_extension p \<or> (\<exists>stem. p = stem @ [10] \<and> has_checked_extension stem)"
  proof
    assume "p = stem @ 46 # e"
    with c show ?thesis by simp
  next
    assume "p = stem @ 46 # e @ [10]"
    then have "p = (stem @ 46 # e) @ [10]" by simp
    with c show ?thesis by blast
  qed
qed

text \<open>
  C3. The configuration defines exactly four local hooks: \<^verbatim>\<open>notebook-pre-commit\<close> and
  \<^verbatim>\<open>auto-add-tests\<close> on \<^verbatim>\<open>^\S+\.ipynb$\<close>, \<^verbatim>\<open>qmod-pre-commit\<close> on \<^verbatim>\<open>^\S+\.qmod$\<close> and
  \<^verbatim>\<open>clean-demo-timeouts\<close> on \<^verbatim>\<open>^\S+\.(qmod|ipynb|yaml)$\<close>. The patterns do not keep the hooks to
  paths with one of the three extensions: \<^verbatim>\<open>$\<close> also matches before a final line feed, so
  \<^verbatim>\<open>notebook-pre-commit\<close> is triggered by the path \<^verbatim>\<open>x.ipynb\<close> followed by a line feed, which
  ends in none of \<^verbatim>\<open>.ipynb\<close>, \<^verbatim>\<open>.qmod\<close> and \<^verbatim>\<open>.yaml\<close>.
\<close>

theorem trailing_newline_triggers_hook:
  "map hook_id local_hooks =
     [''notebook-pre-commit'', ''qmod-pre-commit'', ''clean-demo-timeouts'', ''auto-add-tests''] \<and>
   map files local_hooks = [re_ipynb, re_qmod, re_qmod_ipynb_yaml, re_ipynb] \<and>
   hook_selects (local_hooks ! 0) (asc ''x.ipynb'' @ [10]) \<and>
   \<not> has_checked_extension (asc ''x.ipynb'' @ [10])"
proof (intro conjI)
  show "map hook_id local_hooks =
     [''notebook-pre-commit'', ''qmod-pre-commit'', ''clean-demo-timeouts'', ''auto-add-tests'']"
    by (simp add: local_hooks_def)
  show "map files local_hooks = [re_ipynb, re_qmod, re_qmod_ipynb_yaml, re_ipynb]"
    by (simp add: local_hooks_def)
  show "hook_selects (local_hooks ! 0) (asc ''x.ipynb'' @ [10])"
    by (simp add: local_hooks_def hook_selects_def re_ipynb_def re_search_def asc_def is_space_def)
  show "\<not> has_checked_extension (asc ''x.ipynb'' @ [10])"
    using checked_extension_last [of "asc ''x.ipynb'' @ [10]"] by auto
qed

text \<open>
  C9. The \<^verbatim>\<open>files\<close> pattern of every local hook is \<^verbatim>\<open>^\S+\<close>, a dot and the extension
  part, and \<^verbatim>\<open>$\<close>. There is a path that ends in one of the three extensions and holds a
  white space character on which no local hook is triggered; indeed no local hook is
  triggered on any such path.
\<close>

theorem whitespace_paths_unchecked:
  "(\<forall>h \<in> set local_hooks. \<exists>ext. files h = seqs [Bol, Plus NotSpace, Chr 46, ext, Eol]) \<and>
   (\<exists>p. has_checked_extension p \<and> list_ex is_space p \<and>
        \<not> list_ex (\<lambda>h. hook_selects h p) local_hooks) \<and>
   (\<forall>p. has_checked_extension p \<and> list_ex is_space p \<longrightarrow>
        \<not> list_ex (\<lambda>h. hook_selects h p) local_hooks)"
proof -
  have shape: "\<forall>h \<in> set local_hooks. \<exists>ext. files h = seqs [Bol, Plus NotSpace, Chr 46, ext, Eol]"
    by (simp add: local_hooks_def re_ipynb_def re_qmod_def re_qmod_ipynb_yaml_def)
  have all: "\<not> list_ex (\<lambda>h. hook_selects h p) local_hooks"
    if ext: "has_checked_extension p" and sp: "list_ex is_space p" for p
  proof
    assume "list_ex (\<lambda>h. hook_selects h p) local_hooks"
    then obtain h where h: "h \<in> set local_hooks" "hook_selects h p"
      by (auto simp: list_ex_iff)
    then obtain stem e where stem: "\<not> list_ex is_space stem"
        and e: "e \<in> {asc ''ipynb'', asc ''qmod'', asc ''yaml''}"
        and p: "p = stem @ 46 # e \<or> p = stem @ 46 # e @ [10]"
      using selected_form by blast
    from ext have "last p \<noteq> 10" using checked_extension_last by blast
    with p have p': "p = stem @ 46 # e" by auto
    from e have "\<not> list_ex is_space (46 # e)"
      by (auto simp: asc_def is_space_def)
    with stem p' have "\<not> list_ex is_space p" by (auto simp: list_ex_iff)
    with sp show False by blast
  qed
  have ex: "has_checked_extension (asc ''my notebook.ipynb'') \<and>
            list_ex is_space (asc ''my notebook.ipynb'')"
    by (simp add: has_checked_extension_def ext_ipynb_def asc_def is_space_def suffix_def)
  from shape all ex show ?thesis by blast
qed

text \<open>C9, at the path \<^verbatim>\<open>my notebook.ipynb\<close>.\<close>

theorem whitespace_paths_unchecked_witness:
  "has_checked_extension (asc ''my notebook.ipynb'') \<and>
   list_ex is_space (asc ''my notebook.ipynb'') \<and>
   \<not> list_ex (\<lambda>h. hook_selects h (asc ''my notebook.ipynb'')) local_hooks"
proof -
  have ex: "has_checked_extension (asc ''my notebook.ipynb'') \<and>
            list_ex is_space (asc ''my notebook.ipynb'')"
    by (simp add: has_checked_extension_def ext_ipynb_def asc_def is_space_def suffix_def)
  with whitespace_paths_unchecked show ?thesis by blast
qed

section \<open>Properties of the workflow\<close>

subsection \<open>Doubles\<close>

lemma binade_up_nonneg: "0 \<le> binade_up x"
  by (induction x rule: binade_up.induct) (subst binade_up.simps, simp)

lemma binade_up_le: "1 \<le> x \<Longrightarrow> 2 ^ nat (binade_up x) \<le> x"
proof (induction x rule: binade_up.induct)
  case (1 x)
  show ?case
  proof (cases "x < 2")
    case True
    with "1.prems" show ?thesis by (subst binade_up.simps) simp
  next
    case False
    then have "1 \<le> x / 2" by simp
    with "1.IH" False have ih: "2 ^ nat (binade_up (x / 2)) \<le> x / 2" by simp
    have "nat (1 + binade_up (x / 2)) = Suc (nat (binade_up (x / 2)))"
      using binade_up_nonneg [of "x / 2"] by simp
    then have "(2::rat) ^ nat (1 + binade_up (x / 2)) = 2 * 2 ^ nat (binade_up (x / 2))"
      by simp
    also have "\<dots> \<le> x" using ih by simp
    finally show ?thesis using False by (subst binade_up.simps) simp
  qed
qed

lemma round_half_even_int: "round_half_even (of_int k) = k"
  by (simp add: round_half_even_def)

lemma round_double_nat:
  assumes "n < 2 ^ 53"
  shows "round_double (of_nat n) = of_nat n"
proof (cases "n = 0")
  case True
  then show ?thesis by (simp add: round_double_def)
next
  case False
  define x :: rat where "x = of_nat n"
  define e where "e = nat (binade_up x)"
  have x1: "1 \<le> x" using False by (simp add: x_def)
  have "(2::rat) ^ e \<le> x" unfolding e_def using x1 by (rule binade_up_le)
  also have "x < 2 ^ 53" using assms unfolding x_def
    by (metis of_nat_less_iff of_nat_numeral of_nat_power)
  finally have "(2::rat) ^ e < 2 ^ 53" .
  have e: "e < 53"
  proof (rule ccontr)
    assume "\<not> e < 53"
    then have "53 \<le> e" by simp
    then have "(2::rat) ^ 53 \<le> 2 ^ e" by (intro power_increasing) simp_all
    with \<open>(2::rat) ^ e < 2 ^ 53\<close> show False by linarith
  qed
  have b: "binade x = int e"
    unfolding binade_def e_def using x1 binade_up_nonneg [of x] by simp
  have u: "pow2 (binade x - 52) = 1 / 2 ^ (52 - e)"
    unfolding b pow2_def using e by (auto simp: nat_diff_distrib)
  have "x / (1 / 2 ^ (52 - e)) = of_int (int n * 2 ^ (52 - e))"
    by (simp add: x_def)
  then have "round_half_even (x / (1 / 2 ^ (52 - e))) = int n * 2 ^ (52 - e)"
    using round_half_even_int by metis
  then have "round_double x = of_int (int n * 2 ^ (52 - e)) * (1 / 2 ^ (52 - e))"
    unfolding round_double_def Let_def u using x1 by simp
  also have "\<dots> = x" by (simp add: x_def)
  finally show ?thesis by (simp add: x_def)
qed

lemma to_double_nat:
  assumes "n < 2 ^ 53"
  shows "to_double (of_nat n) = Finite (of_nat n)"
proof -
  have "(of_nat n :: rat) < 2 ^ 53" using assms
    by (metis of_nat_less_iff of_nat_numeral of_nat_power)
  also have "(2::rat) ^ 53 \<le> 2 ^ 1024" by (rule power_increasing) simp_all
  finally have "\<not> pow2 1024 \<le> (of_nat n :: rat)" by (simp add: pow2_def)
  then show ?thesis
    using round_double_nat [OF assms] by (simp add: to_double_def)
qed

subsection \<open>Decimal texts\<close>

lemma decimal_not_empty: "decimal n \<noteq> []"
  by (subst decimal.simps) simp

lemma decimal_digits: "c \<in> set (decimal n) \<Longrightarrow> 48 \<le> c \<and> c \<le> 57"
proof (induction n rule: decimal.induct)
  case (1 n)
  show ?case
  proof (cases "n < 10")
    case True
    with "1.prems" show ?thesis by (subst (asm) decimal.simps) simp
  next
    case False
    have "n mod 10 < 10" by simp
    then have "48 + n mod 10 \<le> 57" by linarith
    with False "1.prems" "1.IH" show ?thesis
      by (subst (asm) decimal.simps) auto
  qed
qed

lemma digits_value_snoc:
  "digits_value r (ds @ [c]) = digits_value r ds * r + the (digit_value c)"
  by (simp add: digits_value_def)

lemma digit_value_decimal: "d < 10 \<Longrightarrow> digit_value (48 + d) = Some d"
  by (simp add: digit_value_def)

lemma digits_value_decimal: "digits_value 10 (decimal n) = n"
proof (induction n rule: decimal.induct)
  case (1 n)
  show ?case
  proof (cases "n < 10")
    case True
    then show ?thesis
      by (subst decimal.simps) (simp add: digits_value_def digit_value_decimal)
  next
    case False
    have "digits_value 10 (decimal n) = digits_value 10 (decimal (n div 10) @ [48 + n mod 10])"
      using False by (subst decimal.simps) simp
    also have "\<dots> = (n div 10) * 10 + n mod 10"
      using False "1.IH" by (simp add: digits_value_snoc digit_value_decimal)
    also have "\<dots> = n" by simp
    finally show ?thesis .
  qed
qed

lemma is_digit_decimal: "c \<in> set (decimal n) \<Longrightarrow> is_digit 10 c"
  using decimal_digits [of c n] by (auto simp: is_digit_def digit_value_def)

lemma takeWhile_decimal: "takeWhile (is_digit 10) (decimal n) = decimal n"
  by (simp add: takeWhile_eq_all_conv is_digit_decimal)

lemma parse_digits_decimal: "parse_digits False (decimal n) = to_double (of_nat n)"
proof -
  have radix: "(case decimal n of
            a # b # r \<Rightarrow> if a = 48 \<and> (b = 120 \<or> b = 88) then (16::nat, r) else (10, decimal n)
          | _ \<Rightarrow> (10, decimal n)) = (10, decimal n)"
  proof (cases "decimal n")
    case Nil
    then show ?thesis by simp
  next
    case (Cons a t)
    show ?thesis
    proof (cases t)
      case Nil
      with Cons show ?thesis by simp
    next
      case (Cons b r)
      with \<open>decimal n = a # t\<close> have "b \<in> set (decimal n)" by simp
      then have "b \<le> 57" using decimal_digits by blast
      with Cons \<open>decimal n = a # t\<close> show ?thesis by simp
    qed
  qed
  show ?thesis
    unfolding parse_digits_def radix
    by (simp add: takeWhile_decimal decimal_not_empty digits_value_decimal)
qed

lemma parseInt_decimal: "parseInt (Some (decimal n)) = to_double (of_nat n)"
proof -
  obtain c r where cr: "decimal n = c # r"
    using decimal_not_empty [of n] by (cases "decimal n") auto
  then have "c \<in> set (decimal n)" by simp
  then have c: "48 \<le> c" "c \<le> 57" using decimal_digits by blast+
  then have ws: "\<not> js_white_space c" by (simp add: js_white_space_def)
  have "parseInt (Some (decimal n)) = parse_digits False (c # r)"
    using c ws by (simp add: parseInt_def cr)
  then show ?thesis using parse_digits_decimal [of n] cr by simp
qed

lemma parseInt_undefined: "parseInt None = NaN"
  by (simp add: parseInt_def asc_def js_white_space_def parse_digits_def is_digit_def digit_value_def)

subsection \<open>Counting\<close>

lemma filter_merged_api_items:
  "list_all api_item items \<Longrightarrow> filter_merged items = Inr (filter merged_at_is_set items)"
proof (induction items)
  case Nil
  show ?case by simp
next
  case (Cons pr prs)
  then have rest: "filter_merged prs = Inr (filter merged_at_is_set prs)" and "api_item pr"
    by simp_all
  then obtain p where p: "pull_request pr = Some p"
      and t: "merged_at p = None \<or> (\<exists>t. merged_at p = Some t \<and> t \<noteq> [])"
    by (auto simp: api_item_def split: option.splits)
  from p t have "merged_at_is_set pr = truthy (merged_at p)"
    by (auto simp: merged_at_is_set_def)
  with p rest show ?case by simp
qed

lemma search_query_after_set:
  "search_query (env (set_environment_variables ev st)) = closed_prs_of_author ev"
  by (simp add: search_query_def set_environment_variables_def closed_prs_of_author_def)

subsection \<open>The two script steps\<close>

lemma count_step_throws:
  assumes "snd (count_body w (env st)) = Inl err"
  shows "count_merged_pull_requests w st =
     st\<lparr>calls := calls st @ [Search_issuesAndPullRequests (search_query (env st))],
        failed := Some (asc ''Error counting merged pull requests: '' @ error_message err)\<rparr>"
  using assms by (simp add: count_merged_pull_requests_def count_body_def)

lemma count_step_returns:
  assumes "snd (count_body w (env st)) = Inr n"
  shows "count_merged_pull_requests w st =
     st\<lparr>calls := calls st @ [Search_issuesAndPullRequests (search_query (env st))],
        env := (env st)(''PR_COUNT'' \<mapsto> decimal n)\<rparr>"
  using assms by (simp add: count_merged_pull_requests_def count_body_def)

lemma comment_step_throws:
  assumes "snd (comment_body w ev (env st)) = Inl err"
  shows "comment_on_the_merged_pull_request w ev st =
     st\<lparr>calls := calls st @ [Issues_createComment (comment_request w ev (env st))],
        failed := Some (asc ''Error creating comment: '' @ error_message err)\<rparr>"
  using assms by (simp add: comment_on_the_merged_pull_request_def comment_body_def)

lemma comment_step_returns:
  assumes "snd (comment_body w ev (env st)) = Inr u"
  shows "comment_on_the_merged_pull_request w ev st =
     st\<lparr>calls := calls st @ [Issues_createComment (comment_request w ev (env st))],
        comments := comments st @ [comment_request w ev (env st)]\<rparr>"
  using assms by (simp add: comment_on_the_merged_pull_request_def comment_body_def)

lemma count_body_api_items:
  assumes "search_issuesAndPullRequests w (search_query e) = Inr items" "list_all api_item items"
  shows "snd (count_body w e) = Inr (length (filter merged_at_is_set items))"
  using assms by (simp add: count_body_def filter_merged_api_items)

subsection \<open>The mention\<close>

lemma mention_in:
  "sublist (asc ''@'' @ a) (e @ pre @ asc ''@'' @ a @ rest)"
proof -
  have "e @ pre @ asc ''@'' @ a @ rest = (e @ pre) @ (asc ''@'' @ a) @ rest" by simp
  then show ?thesis unfolding sublist_def by blast
qed

lemma mention_1: "sublist (asc ''@'' @ a) (message_1 e a p)"
proof -
  have h: "asc '' **Fantastic work @'' = asc '' **Fantastic work '' @ asc ''@''"
    by (simp add: asc_def)
  show ?thesis
    unfolding message_1_def h append_assoc by (rule mention_in)
qed

lemma mention_2: "sublist (asc ''@'' @ a) (message_2 e a p)"
proof -
  have h: "asc '' **Well done @'' = asc '' **Well done '' @ asc ''@''"
    by (simp add: asc_def)
  show ?thesis
    unfolding message_2_def h append_assoc by (rule mention_in)
qed

lemma mention_3: "sublist (asc ''@'' @ a) (message_3 e a p)"
proof -
  have h: "asc '' **You're on fire, @'' = asc '' **You're on fire, '' @ asc ''@''"
    by (simp add: asc_def)
  show ?thesis
    unfolding message_3_def h append_assoc by (rule mention_in)
qed

lemma mention_5: "sublist (asc ''@'' @ a) (message_5 e a p)"
proof -
  have h: "asc '' **High five, @'' = asc '' **High five, '' @ asc ''@''"
    by (simp add: asc_def)
  show ?thesis
    unfolding message_5_def h append_assoc by (rule mention_in)
qed

lemma mention_10: "sublist (asc ''@'' @ a) (message_10 e a p)"
proof -
  have h: "asc '' **Double digits, @'' = asc '' **Double digits, '' @ asc ''@''"
    by (simp add: asc_def)
  show ?thesis
    unfolding message_10_def h append_assoc by (rule mention_in)
qed

lemma mention_more: "sublist (asc ''@'' @ a) (message_more e a p c)"
proof -
  have h: "asc '' **Incredible, @'' = asc '' **Incredible, '' @ asc ''@''"
    by (simp add: asc_def)
  show ?thesis
    unfolding message_more_def h append_assoc by (rule mention_in)
qed

lemma mention_other: "sublist (asc ''@'' @ a) (message_other e a p c)"
proof -
  have h: "asc '' **Great job, @'' = asc '' **Great job, '' @ asc ''@''"
    by (simp add: asc_def)
  show ?thesis
    unfolding message_other_def h append_assoc by (rule mention_in)
qed

lemma getMessage_mentions:
  "sublist (asc ''@'' @ js_string author) (getMessage w author repo_name count)"
  unfolding getMessage_def Let_def
  by (simp add: mention_1 mention_2 mention_3 mention_5 mention_10 mention_more mention_other)

lemma headline_in:
  "sublist (asc ''**'' @ g @ asc ''@'' @ a @ asc ''!**'')
     (e @ asc '' '' @ asc ''**'' @ g @ asc ''@'' @ a @ asc ''!**'' @ rest)"
proof -
  have "e @ asc '' '' @ asc ''**'' @ g @ asc ''@'' @ a @ asc ''!**'' @ rest =
        (e @ asc '' '') @ (asc ''**'' @ g @ asc ''@'' @ a @ asc ''!**'') @ rest"
    by simp
  then show ?thesis unfolding sublist_def by blast
qed

lemma celebrate_1:
  "sublist (asc ''**'' @ asc ''Fantastic work '' @ asc ''@'' @ a @ asc ''!**'') (message_1 e a p)"
proof -
  have h1: "asc '' **Fantastic work @'' = asc '' '' @ asc ''**'' @ asc ''Fantastic work '' @ asc ''@''"
    by (simp add: asc_def)
  have h2: "asc ''!** Your very first PR to '' = asc ''!**'' @ asc '' Your very first PR to ''"
    by (simp add: asc_def)
  show ?thesis
    unfolding message_1_def h1 h2 append_assoc by (rule headline_in)
qed

lemma celebrate_2:
  "sublist (asc ''**'' @ asc ''Well done '' @ asc ''@'' @ a @ asc ''!**'') (message_2 e a p)"
proof -
  have h1: "asc '' **Well done @'' = asc '' '' @ asc ''**'' @ asc ''Well done '' @ asc ''@''"
    by (simp add: asc_def)
  have h2: "asc ''!** Two PRs merged already! '' = asc ''!**'' @ asc '' Two PRs merged already! ''"
    by (simp add: asc_def)
  show ?thesis
    unfolding message_2_def h1 h2 append_assoc by (rule headline_in)
qed

lemma celebrate_3:
  "sublist (asc ''**'' @ asc ''You're on fire, '' @ asc ''@'' @ a @ asc ''!**'') (message_3 e a p)"
proof -
  have h1: "asc '' **You're on fire, @'' = asc '' '' @ asc ''**'' @ asc ''You're on fire, '' @ asc ''@''"
    by (simp add: asc_def)
  have h2: "asc ''!** Three PRs merged and counting! '' = asc ''!**'' @ asc '' Three PRs merged and counting! ''"
    by (simp add: asc_def)
  show ?thesis
    unfolding message_3_def h1 h2 append_assoc by (rule headline_in)
qed

lemma celebrate_5:
  "sublist (asc ''**'' @ asc ''High five, '' @ asc ''@'' @ a @ asc ''!**'') (message_5 e a p)"
proof -
  have h1: "asc '' **High five, @'' = asc '' '' @ asc ''**'' @ asc ''High five, '' @ asc ''@''"
    by (simp add: asc_def)
  have h2: "asc ''!** You've hit the incredible milestone of 5 merged PRs! '' = asc ''!**'' @ asc '' You've hit the incredible milestone of 5 merged PRs! ''"
    by (simp add: asc_def)
  show ?thesis
    unfolding message_5_def h1 h2 append_assoc by (rule headline_in)
qed

lemma celebrate_10:
  "sublist (asc ''**'' @ asc ''Double digits, '' @ asc ''@'' @ a @ asc ''!**'') (message_10 e a p)"
proof -
  have h1: "asc '' **Double digits, @'' = asc '' '' @ asc ''**'' @ asc ''Double digits, '' @ asc ''@''"
    by (simp add: asc_def)
  have h2: "asc ''!** 10 merged PRs is a massive achievement! '' = asc ''!**'' @ asc '' 10 merged PRs is a massive achievement! ''"
    by (simp add: asc_def)
  show ?thesis
    unfolding message_10_def h1 h2 append_assoc by (rule headline_in)
qed

lemma celebrate_more:
  "sublist (asc ''**'' @ asc ''Incredible, '' @ asc ''@'' @ a @ asc ''!**'') (message_more e a p c)"
proof -
  have h1: "asc '' **Incredible, @'' = asc '' '' @ asc ''**'' @ asc ''Incredible, '' @ asc ''@''"
    by (simp add: asc_def)
  have h2: "asc ''!** You've merged your '' = asc ''!**'' @ asc '' You've merged your ''"
    by (simp add: asc_def)
  show ?thesis
    unfolding message_more_def h1 h2 append_assoc by (rule headline_in)
qed

lemma celebrate_other:
  "sublist (asc ''**'' @ asc ''Great job, '' @ asc ''@'' @ a @ asc ''!**'') (message_other e a p c)"
proof -
  have h1: "asc '' **Great job, @'' = asc '' '' @ asc ''**'' @ asc ''Great job, '' @ asc ''@''"
    by (simp add: asc_def)
  have h2: "asc ''!** You've merged your '' = asc ''!**'' @ asc '' You've merged your ''"
    by (simp add: asc_def)
  show ?thesis
    unfolding message_other_def h1 h2 append_assoc by (rule headline_in)
qed

lemma getMessage_celebrates:
  "celebrates (js_string author) (getMessage w author repo_name count)"
  unfolding getMessage_def Let_def celebrates_def congratulations_def
  by (simp add: celebrate_1 celebrate_2 celebrate_3 celebrate_5 celebrate_10 celebrate_more celebrate_other)

subsection \<open>The job, step by step\<close>

lemma job_skipped:
  "\<not> pull_request_merged ev \<Longrightarrow> comment_on_merged_pull_request w ev = (Skipped, initial_state)"
  by (simp add: comment_on_merged_pull_request_def job_if_def)

lemma env_after_set:
  "env (set_environment_variables ev initial_state) =
     [''AUTHOR'' \<mapsto> pull_request_user_login ev, ''REPO'' \<mapsto> repository_name ev,
      ''OWNER'' \<mapsto> repository_owner_login ev]"
  by (simp add: set_environment_variables_def initial_state_def)

lemma state_after_set:
  "calls (set_environment_variables ev initial_state) = [] \<and>
   comments (set_environment_variables ev initial_state) = [] \<and>
   failed (set_environment_variables ev initial_state) = None"
  by (simp add: set_environment_variables_def initial_state_def)

text \<open>The four ways the job can end, with the state each leaves.\<close>

lemma job_cases:
  fixes w ev
  defines "s1 \<equiv> set_environment_variables ev initial_state"
  defines "rq \<equiv> \<lambda>n. comment_request w ev ((env s1)(''PR_COUNT'' \<mapsto> decimal n))"
  shows
   "comment_on_merged_pull_request w ev = (Skipped, initial_state) \<and> \<not> pull_request_merged ev
    \<or> (\<exists>m. comment_on_merged_pull_request w ev = (Failure, initial_state\<lparr>failed := Some m\<rparr>) \<and>
          pull_request_merged ev \<and> checkout_error w = Some m)
    \<or> (\<exists>err. comment_on_merged_pull_request w ev =
            (Failure, s1\<lparr>calls := [Search_issuesAndPullRequests (closed_prs_of_author ev)],
               failed := Some (asc ''Error counting merged pull requests: '' @ error_message err)\<rparr>) \<and>
          pull_request_merged ev \<and> checkout_error w = None \<and> snd (count_body w (env s1)) = Inl err)
    \<or> (\<exists>n err. comment_on_merged_pull_request w ev =
            (Failure, s1\<lparr>calls := [Search_issuesAndPullRequests (closed_prs_of_author ev),
                                  Issues_createComment (rq n)],
               env := (env s1)(''PR_COUNT'' \<mapsto> decimal n),
               failed := Some (asc ''Error creating comment: '' @ error_message err)\<rparr>) \<and>
          pull_request_merged ev \<and> checkout_error w = None \<and> snd (count_body w (env s1)) = Inr n \<and>
          issues_createComment w (rq n) = Inl err)
    \<or> (\<exists>n. comment_on_merged_pull_request w ev =
            (Success, s1\<lparr>calls := [Search_issuesAndPullRequests (closed_prs_of_author ev),
                                  Issues_createComment (rq n)],
               env := (env s1)(''PR_COUNT'' \<mapsto> decimal n),
               comments := [rq n]\<rparr>) \<and>
          pull_request_merged ev \<and> checkout_error w = None \<and> snd (count_body w (env s1)) = Inr n \<and>
          issues_createComment w (rq n) = Inr ())"
proof (cases "pull_request_merged ev")
  case False
  then show ?thesis by (simp add: job_skipped)
next
  case merged: True
  show ?thesis
  proof (cases "checkout_error w")
    case (Some m)
    with merged show ?thesis
      by (simp add: comment_on_merged_pull_request_def job_if_def)
  next
    case None
    have s1: "calls s1 = []" "comments s1 = []" "failed s1 = None"
      "search_query (env s1) = closed_prs_of_author ev"
      unfolding s1_def using state_after_set [of ev] search_query_after_set [of ev initial_state]
      by simp_all
    show ?thesis
    proof (cases "snd (count_body w (env s1))")
      case (Inl err)
      have s2: "count_merged_pull_requests w s1 =
          s1\<lparr>calls := [Search_issuesAndPullRequests (closed_prs_of_author ev)],
             failed := Some (asc ''Error counting merged pull requests: '' @ error_message err)\<rparr>"
        using count_step_throws [OF Inl] s1 by simp
      have "comment_on_merged_pull_request w ev = (Failure, count_merged_pull_requests w s1)"
        unfolding comment_on_merged_pull_request_def using merged None s2
        by (simp add: job_if_def s1_def Let_def)
      with s2 merged None Inl show ?thesis by simp
    next
      case (Inr n)
      define s2 where "s2 = count_merged_pull_requests w s1"
      have s2: "s2 = s1\<lparr>calls := [Search_issuesAndPullRequests (closed_prs_of_author ev)],
             env := (env s1)(''PR_COUNT'' \<mapsto> decimal n)\<rparr>"
        unfolding s2_def using count_step_returns [OF Inr] s1 by simp
      then have s2f: "failed s2 = None" "env s2 = (env s1)(''PR_COUNT'' \<mapsto> decimal n)"
        "calls s2 = [Search_issuesAndPullRequests (closed_prs_of_author ev)]" "comments s2 = []"
        using s1 by simp_all
      have job: "comment_on_merged_pull_request w ev =
          (let s3 = comment_on_the_merged_pull_request w ev s2
           in if failed s3 \<noteq> None then (Failure, s3) else (Success, s3))"
        unfolding comment_on_merged_pull_request_def using merged None s2f(1)
        by (simp add: job_if_def s1_def s2_def Let_def)
      have rq: "comment_request w ev (env s2) = rq n"
        by (simp add: rq_def s2f)
      show ?thesis
      proof (cases "issues_createComment w (rq n)")
        case (Inl err)
        then have "snd (comment_body w ev (env s2)) = Inl err"
          by (simp add: comment_body_def rq)
        from comment_step_throws [OF this]
        have "comment_on_the_merged_pull_request w ev s2 =
            s1\<lparr>calls := [Search_issuesAndPullRequests (closed_prs_of_author ev),
                                  Issues_createComment (rq n)],
               env := (env s1)(''PR_COUNT'' \<mapsto> decimal n),
               failed := Some (asc ''Error creating comment: '' @ error_message err)\<rparr>"
          unfolding rq s2f by (simp add: s2 rq_def)
        with job merged None Inr Inl show ?thesis by (simp add: Let_def)
      next
        case (Inr u)
        then have "snd (comment_body w ev (env s2)) = Inr u"
          by (simp add: comment_body_def rq)
        from comment_step_returns [OF this]
        have "comment_on_the_merged_pull_request w ev s2 =
            s1\<lparr>calls := [Search_issuesAndPullRequests (closed_prs_of_author ev),
                                  Issues_createComment (rq n)],
               env := (env s1)(''PR_COUNT'' \<mapsto> decimal n),
               comments := [rq n]\<rparr>"
          unfolding rq s2f by (simp add: s2 rq_def)
        with job merged None \<open>snd (count_body w (env s1)) = Inr n\<close> Inr s1 show ?thesis
          by (simp add: Let_def)
      qed
    qed
  qed
qed

lemma comment_request_fields:
  "owner (comment_request w ev e) = e ''OWNER'' \<and>
   repo (comment_request w ev e) = e ''REPO'' \<and>
   issue_number (comment_request w ev e) = pull_request_number ev \<and>
   body (comment_request w ev e) = getMessage w (e ''AUTHOR'') (e ''REPO'') (parseInt (e ''PR_COUNT''))"
  by (simp add: comment_request_def Let_def)

lemma comment_request_after_count:
  fixes w ev n
  defines "c \<equiv> comment_request w ev
     ((env (set_environment_variables ev initial_state))(''PR_COUNT'' \<mapsto> decimal n))"
  shows "owner c = Some (repository_owner_login ev) \<and>
   repo c = Some (repository_name ev) \<and>
   issue_number c = pull_request_number ev \<and>
   body c = getMessage w (Some (pull_request_user_login ev)) (Some (repository_name ev))
              (to_double (of_nat n))"
  unfolding c_def
  using comment_request_fields [of w ev
      "(env (set_environment_variables ev initial_state))(''PR_COUNT'' \<mapsto> decimal n)"]
  by (simp add: env_after_set parseInt_decimal)

lemma workflow_result:
  assumes "workflow w ev = Some (r, st)"
  shows "comment_on_merged_pull_request w ev = (r, st)" "on_trigger ev"
  using assms by (auto simp: workflow_def split: if_splits)

lemma good_run:
  "workflow good_world merged_event =
     Some (fst (comment_on_merged_pull_request good_world merged_event),
           snd (comment_on_merged_pull_request good_world merged_event))"
  by (simp add: workflow_def on_trigger_def merged_event_def)

lemma good_run_succeeds:
  "fst (comment_on_merged_pull_request good_world merged_event) = Success"
  by (simp add: comment_on_merged_pull_request_def job_if_def good_world_def merged_event_def
      count_merged_pull_requests_def count_body_def set_environment_variables_def
      initial_state_def comment_on_the_merged_pull_request_def comment_body_def
      two_closed_prs_def Let_def)

lemma count_is_parsed:
  assumes "workflow w ev = Some (r, st)"
    and "pull_request_merged ev"
    and "checkout_error w = None"
    and "search_issuesAndPullRequests w (closed_prs_of_author ev) = Inr items"
    and "list_all api_item items"
  shows "parseInt (env st ''PR_COUNT'') = to_double (of_nat (length (filter merged_at_is_set items)))"
proof -
  define s1 where "s1 = set_environment_variables ev initial_state"
  have job: "comment_on_merged_pull_request w ev = (r, st)"
    using assms(1) by (rule workflow_result)
  have "search_query (env s1) = closed_prs_of_author ev"
    unfolding s1_def by (rule search_query_after_set)
  with assms(4,5) have cnt: "snd (count_body w (env s1)) = Inr (length (filter merged_at_is_set items))"
    using count_body_api_items [of w "env s1" items] by simp
  from job_cases [of w ev] job assms(2,3) cnt
  have "env st ''PR_COUNT'' = Some (decimal (length (filter merged_at_is_set items)))"
    unfolding s1_def [symmetric] by auto
  then show ?thesis by (simp add: parseInt_decimal)
qed

text \<open>
  At the double nearest to 0.7 the product with 10 lies halfway between two doubles and is
  rounded to 7: the eighth emoji.
\<close>

lemma binade_near_seven: "binade (15762598695796735 / 2251799813685248) = 2"
  by (simp add: binade_def binade_up.simps)

lemma floor_near_seven: "\<lfloor>(15762598695796735::rat) / 2\<rfloor> = 7881299347898367"
  by (rule floor_unique) simp_all

lemma round_near_seven: "round_double (15762598695796735 / 2251799813685248) = 7"
  unfolding round_double_def Let_def binade_near_seven
  by (simp add: pow2_def round_half_even_def Let_def floor_near_seven)

lemma double_near_seven: "to_double (15762598695796735 / 2251799813685248) = Finite 7"
  unfolding to_double_def Let_def by (simp add: round_near_seven pow2_def)

lemma random_near_seven_tenths:
  "getRandomEmoji (random good_world) = Some [0x1F44F]"
  by (simp add: getRandomEmoji_def good_world_def emojis_def double_near_seven)

text \<open>
  C1. On a closed pull request that the job processes (it was merged and the checkout
  succeeded), when the search for the closed pull requests of the event's author in the
  event's repository answers with its items, the first request of the run is that search
  and the exported \<^verbatim>\<open>PR_COUNT\<close> is the decimal text of the number of returned items whose
  \<^verbatim>\<open>merged_at\<close> is set; \<^verbatim>\<open>parseInt\<close> reads that number back, as the double nearest to it,
  which below \<open>2 ^ 53\<close> is the number itself.
\<close>

theorem pr_count_is_number_of_merged:
  assumes "workflow w ev = Some (r, st)"
    and "pull_request_merged ev"
    and "checkout_error w = None"
    and "search_issuesAndPullRequests w (closed_prs_of_author ev) = Inr items"
    and "list_all api_item items"
  shows "calls st \<noteq> [] \<and>
         hd (calls st) = Search_issuesAndPullRequests (closed_prs_of_author ev) \<and>
         env st ''PR_COUNT'' = Some (decimal (length (filter merged_at_is_set items))) \<and>
         parseInt (env st ''PR_COUNT'') = to_double (of_nat (length (filter merged_at_is_set items))) \<and>
         (length (filter merged_at_is_set items) < 2 ^ 53 \<longrightarrow>
            parseInt (env st ''PR_COUNT'') = Finite (of_nat (length (filter merged_at_is_set items))))"
proof -
  define s1 where "s1 = set_environment_variables ev initial_state"
  have job: "comment_on_merged_pull_request w ev = (r, st)"
    using assms(1) by (rule workflow_result)
  have "search_query (env s1) = closed_prs_of_author ev"
    unfolding s1_def by (rule search_query_after_set)
  with assms(4,5) have cnt: "snd (count_body w (env s1)) = Inr (length (filter merged_at_is_set items))"
    using count_body_api_items [of w "env s1" items] by simp
  from job_cases [of w ev] job assms(2,3) cnt
  have "env st ''PR_COUNT'' = Some (decimal (length (filter merged_at_is_set items))) \<and>
        calls st \<noteq> [] \<and> hd (calls st) = Search_issuesAndPullRequests (closed_prs_of_author ev)"
    unfolding s1_def [symmetric] by auto
  then show ?thesis by (simp add: parseInt_decimal to_double_nat)
qed

text \<open>C1, on the merged pull request of \<^verbatim>\<open>alice\<close>: one of her two closed pull requests is merged.\<close>

theorem pr_count_is_number_of_merged_witness:
  "pull_request_merged merged_event \<and> list_all api_item two_closed_prs \<and>
   env (snd (comment_on_merged_pull_request good_world merged_event)) ''PR_COUNT'' = Some (asc ''1'') \<and>
   parseInt (env (snd (comment_on_merged_pull_request good_world merged_event)) ''PR_COUNT'') = Finite 1"
proof -
  have h2: "pull_request_merged merged_event" by (simp add: merged_event_def)
  have h3: "checkout_error good_world = None" by (simp add: good_world_def)
  have h4: "search_issuesAndPullRequests good_world (closed_prs_of_author merged_event) = Inr two_closed_prs"
    by (simp add: good_world_def)
  have h5: "list_all api_item two_closed_prs" by (simp add: two_closed_prs_def api_item_def asc_def)
  have n: "length (filter merged_at_is_set two_closed_prs) = 1"
    by (simp add: two_closed_prs_def merged_at_is_set_def)
  have d: "decimal 1 = asc ''1''" by (simp add: decimal.simps asc_def)
  have lt: "(1::nat) < 2 ^ 53" by simp
  note th = pr_count_is_number_of_merged [OF good_run h2 h3 h4 h5, unfolded n]
  from th have a: "env (snd (comment_on_merged_pull_request good_world merged_event)) ''PR_COUNT'' =
      Some (decimal 1)"
    by blast
  from th lt have b: "parseInt (env (snd (comment_on_merged_pull_request good_world merged_event)) ''PR_COUNT'') =
      Finite (of_nat 1)"
    by blast
  from a d have a': "env (snd (comment_on_merged_pull_request good_world merged_event)) ''PR_COUNT'' =
      Some (asc ''1'')"
    by simp
  from b have b': "parseInt (env (snd (comment_on_merged_pull_request good_world merged_event)) ''PR_COUNT'') =
      Finite 1"
    by simp
  from h2 h5 a' b' show ?thesis by blast
qed

text \<open>
  C2. When the workflow runs on a closed \<^verbatim>\<open>pull_request_target\<close> event and its job succeeds,
  the run created exactly one comment, by its only mutating request; the comment is on the
  pull request of the event (its repository owner, repository and number). Its body is the
  message \<^verbatim>\<open>getMessage\<close> builds for the author's login, the repository and the exported count;
  it is a celebratory message that mentions the author: it holds one of the script's seven
  congratulations in bold, addressed to \<^verbatim>\<open>@login\<close>.
\<close>

theorem success_posts_one_comment:
  assumes "workflow w ev = Some (Success, st)"
  shows "\<exists>c. comments st = [c] \<and>
           filter mutating (calls st) = [Issues_createComment c] \<and>
           owner c = Some (repository_owner_login ev) \<and>
           repo c = Some (repository_name ev) \<and>
           issue_number c = pull_request_number ev \<and>
           (\<exists>n. env st ''PR_COUNT'' = Some (decimal n)) \<and>
           body c = getMessage w (Some (pull_request_user_login ev))
                      (Some (repository_name ev)) (parseInt (env st ''PR_COUNT'')) \<and>
           celebrates (pull_request_user_login ev) (body c) \<and>
           sublist (asc ''@'' @ pull_request_user_login ev) (body c)"
proof -
  define s1 where "s1 = set_environment_variables ev initial_state"
  have job: "comment_on_merged_pull_request w ev = (Success, st)"
    using assms by (rule workflow_result)
  from job_cases [of w ev] job obtain n where
    st: "st = s1\<lparr>calls := [Search_issuesAndPullRequests (closed_prs_of_author ev),
                         Issues_createComment (comment_request w ev ((env s1)(''PR_COUNT'' \<mapsto> decimal n)))],
               env := (env s1)(''PR_COUNT'' \<mapsto> decimal n),
               comments := [comment_request w ev ((env s1)(''PR_COUNT'' \<mapsto> decimal n))]\<rparr>"
    unfolding s1_def [symmetric] by auto
  define c where "c = comment_request w ev ((env s1)(''PR_COUNT'' \<mapsto> decimal n))"
  have pc: "env st ''PR_COUNT'' = Some (decimal n)"
    unfolding st by simp
  have f: "owner c = Some (repository_owner_login ev) \<and>
   repo c = Some (repository_name ev) \<and>
   issue_number c = pull_request_number ev \<and>
   body c = getMessage w (Some (pull_request_user_login ev)) (Some (repository_name ev))
              (to_double (of_nat n))"
    unfolding c_def s1_def by (rule comment_request_after_count)
  then have b: "body c = getMessage w (Some (pull_request_user_login ev))
      (Some (repository_name ev)) (parseInt (env st ''PR_COUNT''))"
    by (simp add: pc parseInt_decimal)
  have m: "sublist (asc ''@'' @ pull_request_user_login ev) (body c)"
    unfolding b using getMessage_mentions [of "Some (pull_request_user_login ev)"] by simp
  have g: "celebrates (pull_request_user_login ev) (body c)"
    unfolding b using getMessage_celebrates [of "Some (pull_request_user_login ev)"] by simp
  have "comments st = [c] \<and> filter mutating (calls st) = [Issues_createComment c]"
    unfolding st c_def by simp
  with f b m g pc show ?thesis by blast
qed

text \<open>
  C2, on the merged pull request number 7 of \<^verbatim>\<open>alice\<close>, her first merged one: the comment
  that is posted, with the emoji that \<^verbatim>\<open>Math.random()\<close> near 0.7 selects.
\<close>

theorem success_posts_one_comment_witness:
  "fst (comment_on_merged_pull_request good_world merged_event) = Success \<and>
   length (comments (snd (comment_on_merged_pull_request good_world merged_event))) = 1 \<and>
   issue_number (hd (comments (snd (comment_on_merged_pull_request good_world merged_event)))) = 7 \<and>
   body (hd (comments (snd (comment_on_merged_pull_request good_world merged_event)))) =
     [0x1F44F] @ asc '' **Fantastic work @alice!** Your very first PR to classiq-library has been merged! '' @ [0x1F389, 0x1F973, 10, 10] @
     asc ''If you're feeling adventurous, why not dive into another issue and keep contributing? The Classiq community would love to see more from you! '' @ [0x1F680, 10, 10] @
     asc ''Happy coding! '' @ [0x1F469, 0x200D, 0x1F4BB, 0x1F468, 0x200D, 0x1F4BB]"
proof -
  have run: "workflow good_world merged_event =
      Some (Success, snd (comment_on_merged_pull_request good_world merged_event))"
    using good_run good_run_succeeds by simp
  have ev: "pull_request_number merged_event = 7"
    "pull_request_user_login merged_event = asc ''alice''"
    "repository_name merged_event = asc ''classiq-library''"
    by (simp_all add: merged_event_def)
  have h2: "pull_request_merged merged_event" by (simp add: merged_event_def)
  have h3: "checkout_error good_world = None" by (simp add: good_world_def)
  have h4: "search_issuesAndPullRequests good_world (closed_prs_of_author merged_event) = Inr two_closed_prs"
    by (simp add: good_world_def)
  have h5: "list_all api_item two_closed_prs" by (simp add: two_closed_prs_def api_item_def asc_def)
  have n: "length (filter merged_at_is_set two_closed_prs) = 1"
    by (simp add: two_closed_prs_def merged_at_is_set_def)
  have one: "to_double 1 = Finite 1" using to_double_nat [of 1] by simp
  from count_is_parsed [OF good_run h2 h3 h4 h5] n one
  have cnt: "parseInt (env (snd (comment_on_merged_pull_request good_world merged_event)) ''PR_COUNT'') = Finite 1"
    by simp
  have emoji: "js_string (getRandomEmoji (random good_world)) = [0x1F44F]"
    by (simp add: random_near_seven_tenths)
  have msg: "getMessage good_world (Some (asc ''alice'')) (Some (asc ''classiq-library'')) (Finite 1) =
     [0x1F44F] @ asc '' **Fantastic work @alice!** Your very first PR to classiq-library has been merged! '' @ [0x1F389, 0x1F973, 10, 10] @
     asc ''If you're feeling adventurous, why not dive into another issue and keep contributing? The Classiq community would love to see more from you! '' @ [0x1F680, 10, 10] @
     asc ''Happy coding! '' @ [0x1F469, 0x200D, 0x1F4BB, 0x1F468, 0x200D, 0x1F4BB]"
    unfolding getMessage_def Let_def emoji by (simp add: message_1_def asc_def)
  from success_posts_one_comment [OF run] obtain c where
    c: "comments (snd (comment_on_merged_pull_request good_world merged_event)) = [c]"
      "issue_number c = pull_request_number merged_event"
      "body c = getMessage good_world (Some (pull_request_user_login merged_event))
         (Some (repository_name merged_event))
         (parseInt (env (snd (comment_on_merged_pull_request good_world merged_event)) ''PR_COUNT''))"
    by blast
  from c(3) have "body c = getMessage good_world (Some (asc ''alice'')) (Some (asc ''classiq-library'')) (Finite 1)"
    unfolding ev cnt .
  with c(1,2) msg ev(1) good_run_succeeds show ?thesis by simp
qed

text \<open>
  C4. Each of the two script steps is one \<^verbatim>\<open>try\<close> block with one \<^verbatim>\<open>catch\<close>: whatever error
  the body of the step throws, the step calls \<^verbatim>\<open>core.setFailed\<close> with its own prefix
  followed by the error's message, has sent its one request once and no other, and changes
  nothing else (no variable is exported, no comment is created).
\<close>

theorem script_steps_report_errors:
  "(snd (count_body w (env st)) = Inl err \<longrightarrow>
      failed (count_merged_pull_requests w st) =
        Some (asc ''Error counting merged pull requests: '' @ error_message err) \<and>
      calls (count_merged_pull_requests w st) =
        calls st @ [Search_issuesAndPullRequests (search_query (env st))] \<and>
      env (count_merged_pull_requests w st) = env st \<and>
      comments (count_merged_pull_requests w st) = comments st) \<and>
   (snd (comment_body w ev (env st)) = Inl err \<longrightarrow>
      failed (comment_on_the_merged_pull_request w ev st) =
        Some (asc ''Error creating comment: '' @ error_message err) \<and>
      calls (comment_on_the_merged_pull_request w ev st) =
        calls st @ [Issues_createComment (comment_request w ev (env st))] \<and>
      env (comment_on_the_merged_pull_request w ev st) = env st \<and>
      comments (comment_on_the_merged_pull_request w ev st) = comments st)"
proof (intro conjI impI)
  assume "snd (count_body w (env st)) = Inl err"
  note s = count_step_throws [OF this]
  show "failed (count_merged_pull_requests w st) =
        Some (asc ''Error counting merged pull requests: '' @ error_message err)"
    and "calls (count_merged_pull_requests w st) =
        calls st @ [Search_issuesAndPullRequests (search_query (env st))]"
    and "env (count_merged_pull_requests w st) = env st"
    and "comments (count_merged_pull_requests w st) = comments st"
    unfolding s by simp_all
next
  assume "snd (comment_body w ev (env st)) = Inl err"
  note s = comment_step_throws [OF this]
  show "failed (comment_on_the_merged_pull_request w ev st) =
        Some (asc ''Error creating comment: '' @ error_message err)"
    and "calls (comment_on_the_merged_pull_request w ev st) =
        calls st @ [Issues_createComment (comment_request w ev (env st))]"
    and "env (comment_on_the_merged_pull_request w ev st) = env st"
    and "comments (comment_on_the_merged_pull_request w ev st) = comments st"
    unfolding s by simp_all
qed

text \<open>
  C4, where the search throws "API rate limit exceeded" and where creating the comment
  throws "Resource not accessible by integration".
\<close>

theorem script_steps_report_errors_witness:
  "failed (count_merged_pull_requests search_throws initial_state) =
     Some (asc ''Error counting merged pull requests: API rate limit exceeded'') \<and>
   length (calls (count_merged_pull_requests search_throws initial_state)) = 1 \<and>
   failed (comment_on_the_merged_pull_request comment_throws merged_event initial_state) =
     Some (asc ''Error creating comment: Resource not accessible by integration'') \<and>
   length (calls (comment_on_the_merged_pull_request comment_throws merged_event initial_state)) = 1 \<and>
   comments (comment_on_the_merged_pull_request comment_throws merged_event initial_state) = []"
proof -
  have a: "snd (count_body search_throws (env initial_state)) = Inl (Error (asc ''API rate limit exceeded''))"
    by (simp add: count_body_def search_throws_def good_world_def)
  have b: "snd (comment_body comment_throws merged_event (env initial_state)) =
      Inl (Error (asc ''Resource not accessible by integration''))"
    by (simp add: comment_body_def comment_throws_def good_world_def)
  have c: "calls initial_state = []" "comments initial_state = []"
    by (simp_all add: initial_state_def)
  from script_steps_report_errors [where w = search_throws and st = initial_state
      and err = "Error (asc ''API rate limit exceeded'')" and ev = merged_event] a
  have 1: "failed (count_merged_pull_requests search_throws initial_state) =
     Some (asc ''Error counting merged pull requests: API rate limit exceeded'') \<and>
   length (calls (count_merged_pull_requests search_throws initial_state)) = 1"
    using c by (simp add: asc_def)
  from script_steps_report_errors [where w = comment_throws and st = initial_state
      and err = "Error (asc ''Resource not accessible by integration'')" and ev = merged_event] b
  have 2: "failed (comment_on_the_merged_pull_request comment_throws merged_event initial_state) =
     Some (asc ''Error creating comment: Resource not accessible by integration'') \<and>
   length (calls (comment_on_the_merged_pull_request comment_throws merged_event initial_state)) = 1 \<and>
   comments (comment_on_the_merged_pull_request comment_throws merged_event initial_state) = []"
    using c by (simp add: asc_def)
  from 1 2 show ?thesis by blast
qed

text \<open>
  C6. The permissions block grants \<^verbatim>\<open>pull-requests: write\<close> and nothing else. Whatever a run
  on a closed \<^verbatim>\<open>pull_request_target\<close> event does, the requests it sends are none, or the
  search alone, or the search and then one \<^verbatim>\<open>issues.createComment\<close> on the pull request of
  the event; the only mutating request among them is that \<^verbatim>\<open>createComment\<close>, and the run
  creates no comment or exactly that one.
\<close>

theorem only_mutation_is_the_comment:
  assumes "workflow w ev = Some (r, st)"
  shows "permissions = [(''pull-requests'', Write)] \<and>
    (\<exists>c. issue_number c = pull_request_number ev \<and>
       (calls st = [] \<or>
        calls st = [Search_issuesAndPullRequests (closed_prs_of_author ev)] \<or>
        calls st = [Search_issuesAndPullRequests (closed_prs_of_author ev), Issues_createComment c]) \<and>
       (filter mutating (calls st) = [] \<or> filter mutating (calls st) = [Issues_createComment c]) \<and>
       (comments st = [] \<or>
        comments st = [c] \<and>
        calls st = [Search_issuesAndPullRequests (closed_prs_of_author ev), Issues_createComment c]))"
proof -
  define s1 where "s1 = set_environment_variables ev initial_state"
  define rq where "rq n = comment_request w ev ((env s1)(''PR_COUNT'' \<mapsto> decimal n))" for n
  have job: "comment_on_merged_pull_request w ev = (r, st)"
    using assms by (rule workflow_result)
  have num: "issue_number (rq n) = pull_request_number ev" for n
    unfolding rq_def using comment_request_fields by blast
  have s1: "calls s1 = []" "comments s1 = []"
    unfolding s1_def using state_after_set [of ev] by simp_all
  have i: "calls initial_state = []" "comments initial_state = []"
    by (simp_all add: initial_state_def)
  from job_cases [of w ev] job
  have "\<exists>n. (calls st = [] \<or>
        calls st = [Search_issuesAndPullRequests (closed_prs_of_author ev)] \<or>
        calls st = [Search_issuesAndPullRequests (closed_prs_of_author ev), Issues_createComment (rq n)]) \<and>
       (comments st = [] \<or>
        comments st = [rq n] \<and>
        calls st = [Search_issuesAndPullRequests (closed_prs_of_author ev), Issues_createComment (rq n)])"
    unfolding s1_def [symmetric] rq_def [symmetric] using s1 i by auto
  then obtain n where n: "calls st = [] \<or>
        calls st = [Search_issuesAndPullRequests (closed_prs_of_author ev)] \<or>
        calls st = [Search_issuesAndPullRequests (closed_prs_of_author ev), Issues_createComment (rq n)]"
    "comments st = [] \<or>
        comments st = [rq n] \<and>
        calls st = [Search_issuesAndPullRequests (closed_prs_of_author ev), Issues_createComment (rq n)]"
    by blast
  from n(1) have "filter mutating (calls st) = [] \<or> filter mutating (calls st) = [Issues_createComment (rq n)]"
    by auto
  with n num [of n] show ?thesis
    unfolding permissions_def by blast
qed

text \<open>C6, on the run that succeeds: two requests, the second one the comment.\<close>

theorem only_mutation_is_the_comment_witness:
  "length (calls (snd (comment_on_merged_pull_request good_world merged_event))) = 2 \<and>
   length (filter mutating (calls (snd (comment_on_merged_pull_request good_world merged_event)))) = 1 \<and>
   map issue_number (comments (snd (comment_on_merged_pull_request good_world merged_event))) = [7]"
proof -
  have ne: "comments (snd (comment_on_merged_pull_request good_world merged_event)) \<noteq> []"
    by (simp add: comment_on_merged_pull_request_def job_if_def good_world_def merged_event_def
      count_merged_pull_requests_def count_body_def set_environment_variables_def
      initial_state_def comment_on_the_merged_pull_request_def comment_body_def
      two_closed_prs_def Let_def)
  have ev: "pull_request_number merged_event = 7" by (simp add: merged_event_def)
  from only_mutation_is_the_comment [OF good_run] ne ev show ?thesis by auto
qed

text \<open>
  C7. The job carries the condition \<^verbatim>\<open>github.event.pull_request.merged == true\<close>: on a closed
  \<^verbatim>\<open>pull_request_target\<close> event whose pull request was not merged the job is skipped, no step
  runs (no variable is set, no request is sent, nothing fails) and no comment is created.
\<close>

theorem unmerged_pull_request_gets_no_comment:
  assumes "workflow w ev = Some (r, st)" and "\<not> pull_request_merged ev"
  shows "\<not> job_if ev \<and> r = Skipped \<and> env st = Map.empty \<and> calls st = [] \<and> comments st = [] \<and>
         failed st = None"
proof -
  have "comment_on_merged_pull_request w ev = (r, st)"
    using assms(1) by (rule workflow_result)
  with job_skipped [OF assms(2), of w] have "r = Skipped" "st = initial_state" by simp_all
  with assms(2) show ?thesis by (simp add: initial_state_def job_if_def)
qed

text \<open>C7, on the pull request of \<^verbatim>\<open>alice\<close> closed without a merge, in a world where every request would succeed.\<close>

theorem unmerged_pull_request_gets_no_comment_witness:
  "\<not> pull_request_merged (merged_event\<lparr>pull_request_merged := False\<rparr>) \<and>
   workflow good_world (merged_event\<lparr>pull_request_merged := False\<rparr>) = Some (Skipped, initial_state) \<and>
   comments initial_state = []"
proof -
  let ?ev = "merged_event\<lparr>pull_request_merged := False\<rparr>"
  have nm: "\<not> pull_request_merged ?ev" by simp
  have run: "workflow good_world ?ev =
      Some (fst (comment_on_merged_pull_request good_world ?ev),
            snd (comment_on_merged_pull_request good_world ?ev))"
    by (simp add: workflow_def on_trigger_def merged_event_def)
  have sk: "comment_on_merged_pull_request good_world ?ev = (Skipped, initial_state)"
    using nm by (rule job_skipped)
  from unmerged_pull_request_gets_no_comment [OF run nm] run sk show ?thesis by simp
qed

subsection \<open>The messages\<close>

lemma messages_not_empty:
  "message_1 e a p \<noteq> []" "message_2 e a p \<noteq> []" "message_3 e a p \<noteq> []"
  "message_5 e a p \<noteq> []" "message_10 e a p \<noteq> []"
  "message_more e a p c \<noteq> []" "message_other e a p c \<noteq> []"
  by (simp_all add: message_1_def message_2_def message_3_def message_5_def message_10_def
      message_more_def message_other_def asc_def)

lemma getMessage_not_empty: "getMessage w author repo_name count \<noteq> []"
  unfolding getMessage_def Let_def by (simp add: messages_not_empty)

lemma number_string_nat:
  assumes "n < 2 ^ 53"
  shows "number_string other (Finite (of_nat n)) = decimal n"
proof -
  have "(of_nat n :: rat) < 2 ^ 53" using assms
    by (metis of_nat_less_iff of_nat_numeral of_nat_power)
  then show ?thesis by simp
qed

lemma getMessage_switch:
  "getMessage w author repo_name (Finite 1) =
     message_1 (js_string (getRandomEmoji (random w))) (js_string author) (js_string repo_name)"
  "getMessage w author repo_name (Finite 2) =
     message_2 (js_string (getRandomEmoji (random w))) (js_string author) (js_string repo_name)"
  "getMessage w author repo_name (Finite 3) =
     message_3 (js_string (getRandomEmoji (random w))) (js_string author) (js_string repo_name)"
  "getMessage w author repo_name (Finite 5) =
     message_5 (js_string (getRandomEmoji (random w))) (js_string author) (js_string repo_name)"
  "getMessage w author repo_name (Finite 10) =
     message_10 (js_string (getRandomEmoji (random w))) (js_string author) (js_string repo_name)"
  "greater_than c (Finite 10) \<Longrightarrow> getMessage w author repo_name c =
     message_more (js_string (getRandomEmoji (random w))) (js_string author) (js_string repo_name)
       (number_string (number_toString w) c)"
  "c \<notin> {Finite 1, Finite 2, Finite 3, Finite 5, Finite 10} \<Longrightarrow> \<not> greater_than c (Finite 10) \<Longrightarrow>
   getMessage w author repo_name c =
     message_other (js_string (getRandomEmoji (random w))) (js_string author) (js_string repo_name)
       (number_string (number_toString w) c)"
proof -
  show "greater_than c (Finite 10) \<Longrightarrow> getMessage w author repo_name c =
     message_more (js_string (getRandomEmoji (random w))) (js_string author) (js_string repo_name)
       (number_string (number_toString w) c)"
    by (cases c) (auto simp: getMessage_def)
  show "c \<notin> {Finite 1, Finite 2, Finite 3, Finite 5, Finite 10} \<Longrightarrow> \<not> greater_than c (Finite 10) \<Longrightarrow>
   getMessage w author repo_name c =
     message_other (js_string (getRandomEmoji (random w))) (js_string author) (js_string repo_name)
       (number_string (number_toString w) c)"
    by (cases c) (auto simp: getMessage_def)
qed (simp_all add: getMessage_def)

text \<open>
  C8. \<^verbatim>\<open>getMessage\<close> returns on every input, and each text is the one the script writes:
  the counts 1, 2, 3, 5 and 10 each get their own message; every Number above 10, the
  positive infinity among them, gets the message for more than ten with the Number's text
  before "th PR"; every other input (0, 4, 6 to 9, the negative numbers, the fractions,
  the negative infinity and \<^verbatim>\<open>NaN\<close>, which is what \<^verbatim>\<open>parseInt\<close> makes of an unset \<^verbatim>\<open>PR_COUNT\<close>)
  gets the general message. The text of an integer below \<open>2 ^ 53\<close> is its decimal digits.
  No message is empty.
\<close>

theorem getMessage_milestones:
  "(let e = js_string (getRandomEmoji (random w)); a = js_string author; p = js_string repo_name;
        gm = getMessage w author repo_name; txt = number_string (number_toString w)
    in
       gm (Finite 1) =
          e @ asc '' **Fantastic work @'' @ a @ asc ''!** Your very first PR to '' @ p @ asc '' has been merged! '' @ [0x1F389, 0x1F973, 10, 10] @
          asc ''If you're feeling adventurous, why not dive into another issue and keep contributing? The Classiq community would love to see more from you! '' @ [0x1F680, 10, 10] @
          asc ''Happy coding! '' @ [0x1F469, 0x200D, 0x1F4BB, 0x1F468, 0x200D, 0x1F4BB] \<and>
       gm (Finite 2) =
          e @ asc '' **Well done @'' @ a @ asc ''!** Two PRs merged already! '' @ [0x1F389, 0x1F973, 10, 10] @
          asc ''With your second PR, you're on a roll, and your contributions are already making a difference. '' @ [0x1F31F, 10] @
          asc ''Looking forward to seeing even more contributions from you. Keep up the great work! '' @ [0x1F680] \<and>
       gm (Finite 3) =
          e @ asc '' **You're on fire, @'' @ a @ asc ''!** Three PRs merged and counting! '' @ [0x1F525, 0x1F389, 10, 10] @
          asc ''Your consistent contributions are truly impressive. You're becoming a valued member of our community! '' @ [0x1F496, 10] @
          asc ''Have you considered taking on some more challenging issues? We'd love to see what you can do! '' @ [0x1F4AA, 10, 10] \<and>
       gm (Finite 5) =
          e @ asc '' **High five, @'' @ a @ asc ''!** You've hit the incredible milestone of 5 merged PRs! '' @ [0x1F590, 0xFE0F, 0x2728, 10, 10] @
          asc ''Your dedication to '' @ p @ asc '' is outstanding. You're not just contributing code; you're shaping the future of quantum computing! '' @ [0x1F320, 10] @
          asc ''We'd love to hear your thoughts on the project. Any ideas for new features or improvements? '' @ [0x1F914, 10, 10] @
          asc ''You're a superstar! '' @ [0x1F31F] \<and>
       gm (Finite 10) =
          e @ asc '' **Double digits, @'' @ a @ asc ''!** 10 merged PRs is a massive achievement! '' @ [0x1F3C6, 0x1F38A, 10, 10] @
          asc ''Your impact on '' @ p @ asc '' is undeniable. You've become a pillar of our community! '' @ [0x1F3DB, 0xFE0F, 10] @
          asc ''You're a quantum hero! '' @ [0x1F9B8, 0x200D, 0x2640, 0xFE0F, 0x1F9B8, 0x200D, 0x2642, 0xFE0F] \<and>
       (\<forall>c. greater_than c (Finite 10) \<longrightarrow> gm c =
          e @ asc '' **Incredible, @'' @ a @ asc ''!** You've merged your '' @ txt c @ asc ''th PR! '' @ [0x1F3AF, 0x1F38A, 10, 10] @
          asc ''Your ongoing commitment to '' @ p @ asc '' is truly remarkable. You're a driving force in our community! '' @ [0x1F680, 10] @
          asc ''Your contributions are helping to shape the future of quantum computing! What exciting features or improvements do you envision next? '' @ [0x1F52E, 10, 10] @
          asc ''We are grateful for your dedication! '' @ [0x1F4AB]) \<and>
       (\<forall>c. c \<notin> {Finite 1, Finite 2, Finite 3, Finite 5, Finite 10} \<and> \<not> greater_than c (Finite 10) \<longrightarrow>
          gm c =
          e @ asc '' **Great job, @'' @ a @ asc ''!** You've merged your '' @ txt c @ asc ''th PR! '' @ [0x1F38A, 10, 10] @
          asc ''Your contributions to '' @ p @ asc '' are making a real difference. Keep up the fantastic work! '' @ [0x1F4AA, 10] @
          asc ''Remember, every PR counts and helps improve the project. What will you tackle next? '' @ [0x1F914, 10, 10]) \<and>
       parseInt None = NaN \<and>
       gm (parseInt None) =
          e @ asc '' **Great job, @'' @ a @ asc ''!** You've merged your '' @ asc ''NaN'' @ asc ''th PR! '' @ [0x1F38A, 10, 10] @
          asc ''Your contributions to '' @ p @ asc '' are making a real difference. Keep up the fantastic work! '' @ [0x1F4AA, 10] @
          asc ''Remember, every PR counts and helps improve the project. What will you tackle next? '' @ [0x1F914, 10, 10] \<and>
       (\<forall>x. greater_than (Finite x) (Finite 10) = (10 < x)) \<and>
       greater_than Infinity (Finite 10) \<and> \<not> greater_than NaN (Finite 10) \<and>
       \<not> greater_than NegInfinity (Finite 10) \<and>
       (\<forall>n. n < 2 ^ 53 \<longrightarrow> txt (Finite (of_nat n)) = decimal n) \<and>
       txt NaN = asc ''NaN'' \<and> txt Infinity = asc ''Infinity'' \<and>
       (\<forall>c. gm c \<noteq> []))"
  unfolding Let_def
proof (intro conjI allI impI)
  fix c
  assume "greater_than c (Finite 10)"
  from getMessage_switch(6) [OF this]
  show "getMessage w author repo_name c =
          js_string (getRandomEmoji (random w)) @ asc '' **Incredible, @'' @ js_string author @ asc ''!** You've merged your '' @ number_string (number_toString w) c @ asc ''th PR! '' @ [0x1F3AF, 0x1F38A, 10, 10] @
          asc ''Your ongoing commitment to '' @ js_string repo_name @ asc '' is truly remarkable. You're a driving force in our community! '' @ [0x1F680, 10] @
          asc ''Your contributions are helping to shape the future of quantum computing! What exciting features or improvements do you envision next? '' @ [0x1F52E, 10, 10] @
          asc ''We are grateful for your dedication! '' @ [0x1F4AB]"
    by (simp add: message_more_def)
next
  fix c
  assume "c \<notin> {Finite 1, Finite 2, Finite 3, Finite 5, Finite 10} \<and> \<not> greater_than c (Finite 10)"
  then have "getMessage w author repo_name c =
     message_other (js_string (getRandomEmoji (random w))) (js_string author) (js_string repo_name)
       (number_string (number_toString w) c)"
    using getMessage_switch(7) by blast
  then show "getMessage w author repo_name c =
          js_string (getRandomEmoji (random w)) @ asc '' **Great job, @'' @ js_string author @ asc ''!** You've merged your '' @ number_string (number_toString w) c @ asc ''th PR! '' @ [0x1F38A, 10, 10] @
          asc ''Your contributions to '' @ js_string repo_name @ asc '' are making a real difference. Keep up the fantastic work! '' @ [0x1F4AA, 10] @
          asc ''Remember, every PR counts and helps improve the project. What will you tackle next? '' @ [0x1F914, 10, 10]"
    by (simp add: message_other_def)
next
  have "getMessage w author repo_name NaN =
     message_other (js_string (getRandomEmoji (random w))) (js_string author) (js_string repo_name)
       (number_string (number_toString w) NaN)"
    by (rule getMessage_switch(7)) simp_all
  then show "getMessage w author repo_name (parseInt None) =
          js_string (getRandomEmoji (random w)) @ asc '' **Great job, @'' @ js_string author @ asc ''!** You've merged your '' @ asc ''NaN'' @ asc ''th PR! '' @ [0x1F38A, 10, 10] @
          asc ''Your contributions to '' @ js_string repo_name @ asc '' are making a real difference. Keep up the fantastic work! '' @ [0x1F4AA, 10] @
          asc ''Remember, every PR counts and helps improve the project. What will you tackle next? '' @ [0x1F914, 10, 10]"
    by (simp add: message_other_def parseInt_undefined)
next
  fix n :: nat
  assume "n < 2 ^ 53"
  then show "number_string (number_toString w) (Finite (of_nat n)) = decimal n"
    by (rule number_string_nat)
next
  fix c
  show "getMessage w author repo_name c \<noteq> []" by (rule getMessage_not_empty)
next
  show "parseInt None = NaN" by (rule parseInt_undefined)
qed (simp_all add: getMessage_switch(1-5) message_1_def message_2_def message_3_def
    message_5_def message_10_def)

text \<open>
  C8, for \<^verbatim>\<open>alice\<close> with the eighth emoji, at the counts 12 and 4 and at the positive
  infinity.
\<close>

theorem getMessage_milestones_witness:
  "getMessage good_world (Some (asc ''alice'')) (Some (asc ''classiq-library'')) (Finite 12) =
     [0x1F44F] @ asc '' **Incredible, @alice!** You've merged your 12th PR! '' @ [0x1F3AF, 0x1F38A, 10, 10] @
     asc ''Your ongoing commitment to classiq-library is truly remarkable. You're a driving force in our community! '' @ [0x1F680, 10] @
     asc ''Your contributions are helping to shape the future of quantum computing! What exciting features or improvements do you envision next? '' @ [0x1F52E, 10, 10] @
     asc ''We are grateful for your dedication! '' @ [0x1F4AB] \<and>
   getMessage good_world (Some (asc ''alice'')) (Some (asc ''classiq-library'')) (Finite 4) =
     [0x1F44F] @ asc '' **Great job, @alice!** You've merged your 4th PR! '' @ [0x1F38A, 10, 10] @
     asc ''Your contributions to classiq-library are making a real difference. Keep up the fantastic work! '' @ [0x1F4AA, 10] @
     asc ''Remember, every PR counts and helps improve the project. What will you tackle next? '' @ [0x1F914, 10, 10] \<and>
   getMessage good_world (Some (asc ''alice'')) (Some (asc ''classiq-library'')) Infinity =
     [0x1F44F] @ asc '' **Incredible, @alice!** You've merged your Infinityth PR! '' @ [0x1F3AF, 0x1F38A, 10, 10] @
     asc ''Your ongoing commitment to classiq-library is truly remarkable. You're a driving force in our community! '' @ [0x1F680, 10] @
     asc ''Your contributions are helping to shape the future of quantum computing! What exciting features or improvements do you envision next? '' @ [0x1F52E, 10, 10] @
     asc ''We are grateful for your dedication! '' @ [0x1F4AB]"
proof -
  have e: "js_string (getRandomEmoji (random good_world)) = [0x1F44F]"
    by (simp add: random_near_seven_tenths)
  have d: "decimal 12 = asc ''12''" "decimal 4 = asc ''4''"
    by (simp_all add: decimal.simps asc_def)
  have t: "number_string (number_toString good_world) (Finite 12) = asc ''12''"
    "number_string (number_toString good_world) (Finite 4) = asc ''4''"
    "number_string (number_toString good_world) Infinity = asc ''Infinity''"
    using number_string_nat [of 12] number_string_nat [of 4] d by simp_all
  have g: "greater_than (Finite 12) (Finite 10)" "greater_than Infinity (Finite 10)"
    "Finite 4 \<notin> {Finite 1, Finite 2, Finite 3, Finite 5, Finite 10} \<and> \<not> greater_than (Finite 4) (Finite 10)"
    by simp_all
  note m = getMessage_milestones [of good_world "Some (asc ''alice'')" "Some (asc ''classiq-library'')",
      unfolded Let_def]
  note more = m [THEN conjunct2, THEN conjunct2, THEN conjunct2, THEN conjunct2, THEN conjunct2,
      THEN conjunct1, rule_format]
  note other = m [THEN conjunct2, THEN conjunct2, THEN conjunct2, THEN conjunct2, THEN conjunct2,
      THEN conjunct2, THEN conjunct1, rule_format]
  have 1: "getMessage good_world (Some (asc ''alice'')) (Some (asc ''classiq-library'')) (Finite 12) =
     [0x1F44F] @ asc '' **Incredible, @alice!** You've merged your 12th PR! '' @ [0x1F3AF, 0x1F38A, 10, 10] @
     asc ''Your ongoing commitment to classiq-library is truly remarkable. You're a driving force in our community! '' @ [0x1F680, 10] @
     asc ''Your contributions are helping to shape the future of quantum computing! What exciting features or improvements do you envision next? '' @ [0x1F52E, 10, 10] @
     asc ''We are grateful for your dedication! '' @ [0x1F4AB]"
    unfolding more [OF g(1)] e t(1) by (simp add: asc_def)
  have 2: "getMessage good_world (Some (asc ''alice'')) (Some (asc ''classiq-library'')) (Finite 4) =
     [0x1F44F] @ asc '' **Great job, @alice!** You've merged your 4th PR! '' @ [0x1F38A, 10, 10] @
     asc ''Your contributions to classiq-library are making a real difference. Keep up the fantastic work! '' @ [0x1F4AA, 10] @
     asc ''Remember, every PR counts and helps improve the project. What will you tackle next? '' @ [0x1F914, 10, 10]"
    unfolding other [OF g(3)] e t(2) by (simp add: asc_def)
  have 3: "getMessage good_world (Some (asc ''alice'')) (Some (asc ''classiq-library'')) Infinity =
     [0x1F44F] @ asc '' **Incredible, @alice!** You've merged your Infinityth PR! '' @ [0x1F3AF, 0x1F38A, 10, 10] @
     asc ''Your ongoing commitment to classiq-library is truly remarkable. You're a driving force in our community! '' @ [0x1F680, 10] @
     asc ''Your contributions are helping to shape the future of quantum computing! What exciting features or improvements do you envision next? '' @ [0x1F52E, 10, 10] @
     asc ''We are grateful for your dedication! '' @ [0x1F4AB]"
    unfolding more [OF g(2)] e t(3) by (simp add: asc_def)
  show ?thesis by (intro conjI) (rule 1 2 3)+
qed

section \<open>Properties of the \<^verbatim>\<open>.qmod\<close> files\<close>

text \<open>
  What the first mention decides: in a list of mentions that passes, the first mention of the
  variable, wherever it stands, initialises it in an allowed way.
\<close>

lemma first_mention_initialises:
  assumes "initialised_before_use allowed (before @ m # after) v"
    and "mentioned m = v" and "\<forall>b \<in> set before. mentioned b \<noteq> v"
  shows "\<exists>i \<in> set allowed. m = Initialised i v"
proof -
  from assms(3) have "first_mention v (before @ m # after) = first_mention v (m # after)"
    by (induction before) auto
  with assms(2) have "first_mention v (before @ m # after) = Some m" by simp
  with assms(1, 2) show ?thesis
    by (cases m) (auto simp: initialised_before_use_def)
qed

text \<open>The mentions of variables in each \<^verbatim>\<open>main\<close>, in the order of the text.\<close>

lemma main_mentions_set_cover:
  "remdups (main_mentions set_cover) = [Initialised ByAllocate ''v'', Used ''params'', Used ''v'']"
  by code_simp

lemma main_mentions_qpe_for_matrix:
  "main_mentions qpe_for_matrix =
     [Initialised ByPrepare ''state'', Initialised ByAllocate ''phase_result'',
      Used ''state'', Used ''state'', Used ''phase_result'']"
  by code_simp


lemma main_mentions_part_003:
  "main_mentions unnamed_part_003 =
     [Initialised ByAllocate ''x'', Initialised ByPrepare ''coin'', Used ''t'',
      Used ''x'', Used ''x'', Used ''x'', Used ''x'', Used ''coin'']"
  by code_simp


lemma main_mentions_encode:
  "main_mentions encode_in_angle = [Used ''data'', Initialised ByOutput ''x'']"
  "main_mentions encode_on_bloch = [Used ''data'', Initialised ByOutput ''x'']"
  by code_simp+




text \<open>A call, an operator or a second statement in the block is no execution directive.\<close>

lemma not_execution_directives:
  "\<not> execution_directive ''save({'run': sample({'t': f(4)})})''"
  "\<not> execution_directive ''save({'run': sample({'t': 2 + 2})})''"
  "\<not> execution_directive ''x = 1; save({'run': sample({'t': 4})})''"
  by code_simp+




end
